theory Spec2Isabelle
  imports Main "HOL-Library.Multiset" "HOL-Library.Sublist"
begin

section \<open>Strings\<close>

text \<open>
  A TypeScript string is modelled as a \<open>string\<close>: the list of the bytes of its UTF-8
  encoding. The identifiers the parsers accept are ASCII (\<open>\w\<close> is \<open>[A-Za-z0-9_]\<close>),
  so names are plain ASCII strings; the accented letters of the French messages are
  written as their two or three bytes. Whitespace is ASCII whitespace (the bytes 9 to
  13 and 32), and case conversion is ASCII case conversion.
\<close>

definition dq :: string where
  "dq = [CHR 0x22]"

definition sq :: string where
  "sq = [CHR 0x27]"

definition e_acute :: string where
  "e_acute = [CHR 0xC3, CHR 0xA9]"

definition i_circ :: string where
  "i_circ = [CHR 0xC3, CHR 0xAE]"

definition arrow :: string where
  "arrow = [CHR 0xE2, CHR 0x86, CHR 0x92]"

definition quoted :: "string \<Rightarrow> string" where
  "quoted s = dq @ s @ dq"

text \<open>\<open>xs.join(sep)\<close>\<close>

fun join :: "string \<Rightarrow> string list \<Rightarrow> string" where
  "join sep [] = []"
| "join sep [x] = x"
| "join sep (x # y # ys) = x @ sep @ join sep (y # ys)"

text \<open>
  \<open>s.toLowerCase()\<close> and \<open>s.toUpperCase()\<close>, on ASCII letters. JavaScript also converts
  the letters outside ASCII; the bytes of such a letter are left as they are here. The
  names that the parsers accept (\<open>\w+\<close>) and the keywords that are compared are ASCII.
\<close>

definition lower_char :: "char \<Rightarrow> char" where
  "lower_char c =
     (let n = (of_char c :: nat) in if 65 \<le> n \<and> n \<le> 90 then char_of (n + 32) else c)"

definition upper_char :: "char \<Rightarrow> char" where
  "upper_char c =
     (let n = (of_char c :: nat) in if 97 \<le> n \<and> n \<le> 122 then char_of (n - 32) else c)"

definition toLowerCase :: "string \<Rightarrow> string" where
  "toLowerCase s = map lower_char s"

definition toUpperCase :: "string \<Rightarrow> string" where
  "toUpperCase s = map upper_char s"

text \<open>\<open>s.startsWith(p)\<close>, \<open>s.endsWith(p)\<close> and \<open>s.includes(p)\<close>\<close>

fun startsWith :: "string \<Rightarrow> string \<Rightarrow> bool" where
  "startsWith s [] = True"
| "startsWith [] (p # ps) = False"
| "startsWith (c # cs) (p # ps) = (c = p \<and> startsWith cs ps)"

definition endsWith :: "string \<Rightarrow> string \<Rightarrow> bool" where
  "endsWith s p = startsWith (rev s) (rev p)"

fun includes_str :: "string \<Rightarrow> string \<Rightarrow> bool" where
  "includes_str [] p = (p = [])"
| "includes_str (c # cs) p = (startsWith (c # cs) p \<or> includes_str cs p)"

section \<open>The data model (models/types.ts)\<close>

datatype Cardinality = C01 | C11 | C0n | C1n

datatype InheritanceStrategy = table_per_class | single_table | table_per_subclass

datatype SqlDialect = mariadb | mysql | postgresql

record McdAttribute =
  attr_name :: string
  attr_isPrimaryKey :: bool
  attr_isDerived :: bool

record McdEntity =
  ent_name :: string
  ent_attributes :: "McdAttribute list"

record McdRelationParticipant =
  part_entityName :: string
  part_cardinality :: Cardinality

record McdRelation =
  rel_name :: string
  rel_participants :: "McdRelationParticipant list"
  rel_attributes :: "McdAttribute list"

record McdInheritance =
  inh_name :: string
  inh_parentEntity :: string
  inh_childEntities :: "string list"
  inh_strategy :: "InheritanceStrategy option"

record McdAssociativeEntity =
  assoc_name :: string
  assoc_relationName :: string
  assoc_attributes :: "McdAttribute list"

record McdModel =
  entities :: "McdEntity list"
  relations :: "McdRelation list"
  inheritances :: "McdInheritance list"
  associativeEntities :: "McdAssociativeEntity list"

record MldForeignKey =
  fk_columnName :: string
  fk_referencedTable :: string
  fk_referencedColumn :: string

record MldColumn =
  col_name :: string
  col_isPrimaryKey :: bool
  col_foreignKey :: "MldForeignKey option"

record MldTable =
  tbl_name :: string
  tbl_columns :: "MldColumn list"

record MldModel =
  mld_tables :: "MldTable list"

datatype ReferentialAction = CASCADE | SET_NULL | SET_DEFAULT | RESTRICT | NO_ACTION

datatype ConstraintType = NOT_NULL | UNIQUE | CHECK

record MpdConstraint =
  con_type :: ConstraintType
  con_expression :: "string option"

record MpdForeignKey =
  pfk_columnName :: string
  pfk_referencedTable :: string
  pfk_referencedColumn :: string
  pfk_onDelete :: "ReferentialAction option"
  pfk_onUpdate :: "ReferentialAction option"

record MpdColumn =
  pcol_name :: string
  pcol_sqlType :: string
  pcol_isPrimaryKey :: bool
  pcol_foreignKey :: "MpdForeignKey option"
  pcol_constraints :: "MpdConstraint list"

record MpdTable =
  ptbl_name :: string
  ptbl_columns :: "MpdColumn list"

record MpdModel =
  mpd_tables :: "MpdTable list"

section \<open>The validator (validation/validator.ts)\<close>

datatype Level = Error | Warning | Info

record ValidationMessage =
  level :: Level
  message :: string

subsection \<open>validateMcd\<close>

definition mcd_no_pk_message :: "McdEntity \<Rightarrow> string" where
  "mcd_no_pk_message e =
     ''Entit'' @ e_acute @ '' '' @ quoted (ent_name e) @ '' : aucun identifiant [PK] d''
       @ e_acute @ ''fini.''"

definition mcd_missing_pk :: "McdEntity \<Rightarrow> ValidationMessage list" where
  "mcd_missing_pk e =
     (if list_ex attr_isPrimaryKey (ent_attributes e) then []
      else [\<lparr>level = Error, message = mcd_no_pk_message e\<rparr>])"

definition usedEntities :: "McdModel \<Rightarrow> string list" where
  "usedEntities m =
     concat (map (\<lambda>r. map part_entityName (rel_participants r)) (relations m))
     @ concat (map (\<lambda>i. inh_parentEntity i # inh_childEntities i) (inheritances m))"

definition mcd_orphan :: "string list \<Rightarrow> McdEntity \<Rightarrow> ValidationMessage list" where
  "mcd_orphan used e =
     (if ent_name e \<in> set used then []
      else [\<lparr>level = Warning,
             message = ''Entit'' @ e_acute @ '' orpheline : '' @ quoted (ent_name e)
               @ '' n'' @ sq @ ''appara'' @ i_circ @ ''t dans aucune relation.''\<rparr>])"

definition mcd_undefined_participant ::
  "string list \<Rightarrow> McdRelation \<Rightarrow> McdRelationParticipant \<Rightarrow> ValidationMessage list" where
  "mcd_undefined_participant names r p =
     (if part_entityName p \<in> set names then []
      else [\<lparr>level = Error,
             message = ''Relation '' @ quoted (rel_name r) @ '' : entit'' @ e_acute @ '' ''
               @ quoted (part_entityName p) @ '' non d'' @ e_acute @ ''finie.''\<rparr>])"

definition mcd_inheritance_errors ::
  "string list \<Rightarrow> McdInheritance \<Rightarrow> ValidationMessage list" where
  "mcd_inheritance_errors names i =
     (if inh_parentEntity i \<in> set names then []
      else [\<lparr>level = Error,
             message = ''H'' @ e_acute @ ''ritage '' @ quoted (inh_name i) @ '' : entit''
               @ e_acute @ '' parent '' @ quoted (inh_parentEntity i) @ '' non d''
               @ e_acute @ ''finie.''\<rparr>])
     @ concat (map (\<lambda>child.
         if child \<in> set names then []
         else [\<lparr>level = Error,
                message = ''H'' @ e_acute @ ''ritage '' @ quoted (inh_name i) @ '' : entit''
                  @ e_acute @ '' enfant '' @ quoted child @ '' non d''
                  @ e_acute @ ''finie.''\<rparr>]) (inh_childEntities i))"

definition mcd_too_few_participants :: "McdRelation \<Rightarrow> ValidationMessage list" where
  "mcd_too_few_participants r =
     (if length (rel_participants r) < 2
      then [\<lparr>level = Error,
             message = ''Relation '' @ quoted (rel_name r)
               @ '' : doit avoir au moins 2 participants.''\<rparr>]
      else [])"

definition validateMcd :: "McdModel \<Rightarrow> ValidationMessage list" where
  "validateMcd m =
     (let names = map ent_name (entities m) in
      concat (map mcd_missing_pk (entities m))
      @ concat (map (mcd_orphan (usedEntities m)) (entities m))
      @ concat (map (\<lambda>r. concat (map (mcd_undefined_participant names r) (rel_participants r)))
          (relations m))
      @ concat (map (mcd_inheritance_errors names) (inheritances m))
      @ concat (map mcd_too_few_participants (relations m)))"

subsection \<open>detectCycles\<close>

text \<open>
  The adjacency map: every table name is mapped to the referenced tables of its
  foreign-key columns, in column order (two tables of one name share one entry);
  \<open>adj.get(node) || []\<close> gives the empty list for a name that is no table.
\<close>

definition fk_targets :: "MldTable \<Rightarrow> string list" where
  "fk_targets t =
     concat (map (\<lambda>c. case col_foreignKey c of None \<Rightarrow> [] | Some fk \<Rightarrow> [fk_referencedTable fk])
       (tbl_columns t))"

definition adj :: "MldModel \<Rightarrow> string \<Rightarrow> string list" where
  "adj m n = concat (map fk_targets (filter (\<lambda>t. tbl_name t = n) (mld_tables m)))"

record DfsState =
  dfs_visited :: "string list"
  dfs_inStack :: "string list"
  dfs_path :: "string list"
  dfs_cycles :: "string list list"

text \<open>
  The recursive \<open>dfs\<close> closure. Its recursion depth is the length of the current path,
  whose nodes are pairwise distinct, so the depth is bounded by the number of names of the
  model; the first argument is that bound (a call at depth bound 0 does nothing).
\<close>

fun dfs :: "nat \<Rightarrow> (string \<Rightarrow> string list) \<Rightarrow> string \<Rightarrow> DfsState \<Rightarrow> DfsState" where
  "dfs 0 a node s = s"
| "dfs (Suc n) a node s =
     (let s1 = s\<lparr>dfs_visited := dfs_visited s @ [node],
                 dfs_inStack := dfs_inStack s @ [node],
                 dfs_path := dfs_path s @ [node]\<rparr>;
          s2 = fold (\<lambda>neighbor st.
                  if neighbor \<notin> set (dfs_visited st) then dfs n a neighbor st
                  else if neighbor \<in> set (dfs_inStack st)
                    then (if neighbor \<in> set (dfs_path st)
                          then st\<lparr>dfs_cycles := dfs_cycles st
                                  @ [dropWhile (\<lambda>x. x \<noteq> neighbor) (dfs_path st) @ [neighbor]]\<rparr>
                          else st)
                    else st) (a node) s1
      in s2\<lparr>dfs_path := butlast (dfs_path s2),
             dfs_inStack := removeAll node (dfs_inStack s2)\<rparr>)"

definition detectCycles :: "MldModel \<Rightarrow> string list list" where
  "detectCycles m =
     (let names = map tbl_name (mld_tables m) @ concat (map fk_targets (mld_tables m));
          bound = Suc (length (remdups names))
      in dfs_cycles
           (fold (\<lambda>t st. if tbl_name t \<notin> set (dfs_visited st) then dfs bound (adj m) (tbl_name t) st
                          else st)
              (mld_tables m)
              \<lparr>dfs_visited = [], dfs_inStack = [], dfs_path = [], dfs_cycles = []\<rparr>))"

subsection \<open>validateMld and validateMpd\<close>

definition mld_no_pk_message :: "MldTable \<Rightarrow> string" where
  "mld_no_pk_message t =
     ''Table '' @ quoted (tbl_name t) @ '' : aucune cl'' @ e_acute @ '' primaire d''
       @ e_acute @ ''finie.''"

definition dangling_fk_message :: "string \<Rightarrow> string \<Rightarrow> string \<Rightarrow> string" where
  "dangling_fk_message t c r =
     ''Table '' @ quoted t @ '', colonne '' @ quoted c @ '' : FK vers table inexistante ''
       @ quoted r @ ''.''"

definition mld_dangling_fk :: "string list \<Rightarrow> MldTable \<Rightarrow> MldColumn \<Rightarrow> ValidationMessage list" where
  "mld_dangling_fk tableNames t c =
     (case col_foreignKey c of
        None \<Rightarrow> []
      | Some fk \<Rightarrow>
          if fk_referencedTable fk \<in> set tableNames then []
          else [\<lparr>level = Error,
                 message = dangling_fk_message (tbl_name t) (col_name c) (fk_referencedTable fk)\<rparr>])"

definition mld_table_messages :: "string list \<Rightarrow> MldTable \<Rightarrow> ValidationMessage list" where
  "mld_table_messages tableNames t =
     (if list_ex col_isPrimaryKey (tbl_columns t) then []
      else [\<lparr>level = Warning, message = mld_no_pk_message t\<rparr>])
     @ concat (map (mld_dangling_fk tableNames t) (tbl_columns t))"

definition cycle_message :: "string list \<Rightarrow> ValidationMessage" where
  "cycle_message cyc =
     \<lparr>level = Warning,
      message = ''Cycle de r'' @ e_acute @ ''f'' @ e_acute @ ''rences FK d'' @ e_acute
        @ ''tect'' @ e_acute @ '' : '' @ join ('' '' @ arrow @ '' '') cyc @ ''.''\<rparr>"

definition validateMld :: "MldModel \<Rightarrow> ValidationMessage list" where
  "validateMld m =
     (let tableNames = map tbl_name (mld_tables m) in
      concat (map (mld_table_messages tableNames) (mld_tables m))
      @ map cycle_message (detectCycles m))"

definition mpd_dangling_fk :: "string list \<Rightarrow> MpdTable \<Rightarrow> MpdColumn \<Rightarrow> ValidationMessage list" where
  "mpd_dangling_fk tableNames t c =
     (case pcol_foreignKey c of
        None \<Rightarrow> []
      | Some fk \<Rightarrow>
          if pfk_referencedTable fk \<in> set tableNames then []
          else [\<lparr>level = Error,
                 message = dangling_fk_message (ptbl_name t) (pcol_name c) (pfk_referencedTable fk)\<rparr>])"

definition validateMpd :: "MpdModel \<Rightarrow> ValidationMessage list" where
  "validateMpd m =
     (let tableNames = map ptbl_name (mpd_tables m) in
      concat (map (\<lambda>t. concat (map (mpd_dangling_fk tableNames t) (ptbl_columns t)))
        (mpd_tables m)))"

subsection \<open>Missing primary keys\<close>

definition mcd_keyless :: McdModel where
  "mcd_keyless =
     \<lparr>entities = [\<lparr>ent_name = ''T'', ent_attributes = []\<rparr>], relations = [],
      inheritances = [], associativeEntities = []\<rparr>"

definition mld_keyless :: MldModel where
  "mld_keyless = \<lparr>mld_tables = [\<lparr>tbl_name = ''T'', tbl_columns = []\<rparr>]\<rparr>"

definition mpd_keyless :: MpdModel where
  "mpd_keyless = \<lparr>mpd_tables = [\<lparr>ptbl_name = ''T'', ptbl_columns = []\<rparr>]\<rparr>"

definition mld_dangling :: MldModel where
  "mld_dangling =
     \<lparr>mld_tables =
        [\<lparr>tbl_name = ''T'',
          tbl_columns =
            [\<lparr>col_name = ''ref'', col_isPrimaryKey = False,
              col_foreignKey = Some \<lparr>fk_columnName = ''ref'', fk_referencedTable = ''X'',
                                     fk_referencedColumn = ''id''\<rparr>\<rparr>]\<rparr>]\<rparr>"

definition mpd_dangling :: MpdModel where
  "mpd_dangling =
     \<lparr>mpd_tables =
        [\<lparr>ptbl_name = ''T'',
          ptbl_columns =
            [\<lparr>pcol_name = ''ref'', pcol_sqlType = ''INT'', pcol_isPrimaryKey = False,
              pcol_foreignKey = Some \<lparr>pfk_columnName = ''ref'', pfk_referencedTable = ''X'',
                                      pfk_referencedColumn = ''id'', pfk_onDelete = None,
                                      pfk_onUpdate = None\<rparr>,
              pcol_constraints = []\<rparr>]\<rparr>]\<rparr>"

lemma mcd_missing_pk_error:
  "e \<in> set (entities m) \<Longrightarrow> \<not> list_ex attr_isPrimaryKey (ent_attributes e) \<Longrightarrow>
   \<lparr>level = Error, message = mcd_no_pk_message e\<rparr> \<in> set (validateMcd m)"
  by (auto simp: validateMcd_def mcd_missing_pk_def Let_def)

lemma mld_missing_pk_warning:
  "t \<in> set (mld_tables m) \<Longrightarrow> \<not> list_ex col_isPrimaryKey (tbl_columns t) \<Longrightarrow>
   \<lparr>level = Warning, message = mld_no_pk_message t\<rparr> \<in> set (validateMld m)"
  by (auto simp: validateMld_def mld_table_messages_def Let_def)

lemma mld_errors_are_dangling:
  assumes "x \<in> set (validateMld m)" and "level x = Error"
  shows "\<exists>t \<in> set (mld_tables m). \<exists>c \<in> set (tbl_columns t). \<exists>fk.
           col_foreignKey c = Some fk
           \<and> fk_referencedTable fk \<notin> set (map tbl_name (mld_tables m))
           \<and> x = \<lparr>level = Error,
                   message = dangling_fk_message (tbl_name t) (col_name c) (fk_referencedTable fk)\<rparr>"
proof -
  from assms obtain t where t: "t \<in> set (mld_tables m)"
    and x: "x \<in> set (mld_table_messages (map tbl_name (mld_tables m)) t)"
    by (auto simp: validateMld_def Let_def cycle_message_def)
  from x assms(2) obtain c where c: "c \<in> set (tbl_columns t)"
    and d: "x \<in> set (mld_dangling_fk (map tbl_name (mld_tables m)) t c)"
    by (auto simp: mld_table_messages_def split: if_splits)
  from d have "\<exists>fk. col_foreignKey c = Some fk
      \<and> fk_referencedTable fk \<notin> set (map tbl_name (mld_tables m))
      \<and> x = \<lparr>level = Error,
              message = dangling_fk_message (tbl_name t) (col_name c) (fk_referencedTable fk)\<rparr>"
    by (cases "col_foreignKey c") (auto simp: mld_dangling_fk_def split: if_splits)
  with t c show ?thesis by blast
qed

lemma mpd_messages_are_dangling:
  assumes "x \<in> set (validateMpd m)"
  shows "\<exists>t \<in> set (mpd_tables m). \<exists>c \<in> set (ptbl_columns t). \<exists>fk.
           pcol_foreignKey c = Some fk
           \<and> pfk_referencedTable fk \<notin> set (map ptbl_name (mpd_tables m))
           \<and> x = \<lparr>level = Error,
                   message = dangling_fk_message (ptbl_name t) (pcol_name c) (pfk_referencedTable fk)\<rparr>"
proof -
  from assms obtain t c where t: "t \<in> set (mpd_tables m)" and c: "c \<in> set (ptbl_columns t)"
    and d: "x \<in> set (mpd_dangling_fk (map ptbl_name (mpd_tables m)) t c)"
    by (auto simp: validateMpd_def Let_def)
  from d have "\<exists>fk. pcol_foreignKey c = Some fk
      \<and> pfk_referencedTable fk \<notin> set (map ptbl_name (mpd_tables m))
      \<and> x = \<lparr>level = Error,
              message = dangling_fk_message (ptbl_name t) (pcol_name c) (pfk_referencedTable fk)\<rparr>"
    by (cases "pcol_foreignKey c") (auto simp: mpd_dangling_fk_def split: if_splits)
  with t c show ?thesis by blast
qed

text \<open>
  Claim C8, as the code has it. \<open>validateMcd\<close> reports every entity without a
  primary-key attribute with a message of level error. \<open>validateMld\<close> reports every
  table without a primary-key column with a message of level warning, and every message of
  level error that it gives is the message of a foreign key to a table that does not exist.
  \<open>validateMpd\<close> has no primary-key check: every message that it gives is the message
  of a foreign key to a table that does not exist.
\<close>

theorem validators_missing_primary_key:
  "(\<forall>e \<in> set (entities mcd). \<not> list_ex attr_isPrimaryKey (ent_attributes e) \<longrightarrow>
      \<lparr>level = Error, message = mcd_no_pk_message e\<rparr> \<in> set (validateMcd mcd))
   \<and> (\<forall>t \<in> set (mld_tables mld). \<not> list_ex col_isPrimaryKey (tbl_columns t) \<longrightarrow>
      \<lparr>level = Warning, message = mld_no_pk_message t\<rparr> \<in> set (validateMld mld))
   \<and> (\<forall>x \<in> set (validateMld mld). level x = Error \<longrightarrow>
        (\<exists>t \<in> set (mld_tables mld). \<exists>c \<in> set (tbl_columns t). \<exists>fk.
           col_foreignKey c = Some fk
           \<and> fk_referencedTable fk \<notin> set (map tbl_name (mld_tables mld))
           \<and> x = \<lparr>level = Error,
                   message = dangling_fk_message (tbl_name t) (col_name c) (fk_referencedTable fk)\<rparr>))
   \<and> (\<forall>x \<in> set (validateMpd mpd).
        \<exists>t \<in> set (mpd_tables mpd). \<exists>c \<in> set (ptbl_columns t). \<exists>fk.
           pcol_foreignKey c = Some fk
           \<and> pfk_referencedTable fk \<notin> set (map ptbl_name (mpd_tables mpd))
           \<and> x = \<lparr>level = Error,
                   message = dangling_fk_message (ptbl_name t) (pcol_name c) (pfk_referencedTable fk)\<rparr>)"
  using mcd_missing_pk_error [of _ mcd] mld_missing_pk_warning [of _ mld]
    mld_errors_are_dangling [of _ mld] mpd_messages_are_dangling [of _ mpd]
  by (intro conjI ballI impI)

theorem validators_missing_primary_key_witness:
  "\<lparr>level = Error,
     message = mcd_no_pk_message \<lparr>ent_name = ''T'', ent_attributes = []\<rparr>\<rparr>
     \<in> set (validateMcd mcd_keyless)
   \<and> validateMld mld_dangling
       = [\<lparr>level = Warning, message = mld_no_pk_message (hd (mld_tables mld_dangling))\<rparr>,
          \<lparr>level = Error, message = dangling_fk_message ''T'' ''ref'' ''X''\<rparr>]
   \<and> validateMpd mpd_dangling
       = [\<lparr>level = Error, message = dangling_fk_message ''T'' ''ref'' ''X''\<rparr>]"
proof -
  have a: "validateMld mld_dangling
       = [\<lparr>level = Warning, message = mld_no_pk_message (hd (mld_tables mld_dangling))\<rparr>,
          \<lparr>level = Error, message = dangling_fk_message ''T'' ''ref'' ''X''\<rparr>]"
    by code_simp
  have b: "validateMpd mpd_dangling
       = [\<lparr>level = Error, message = dangling_fk_message ''T'' ''ref'' ''X''\<rparr>]"
    by code_simp
  have c: "\<lparr>ent_name = ''T'', ent_attributes = []\<rparr> \<in> set (entities mcd_keyless)"
    "\<not> list_ex attr_isPrimaryKey (ent_attributes \<lparr>ent_name = ''T'', ent_attributes = []\<rparr>)"
    by (simp_all add: mcd_keyless_def)
  show ?thesis
    using validators_missing_primary_key [of mcd_keyless mld_dangling mpd_dangling] a b c
    by blast
qed

text \<open>
  The table \<open>T\<close> has no column at all, hence no primary key: \<open>validateMld\<close> answers
  with one warning and \<open>validateMpd\<close> with nothing, so neither emits an error.
\<close>

theorem validators_missing_primary_key_counterexample:
  "validateMld mld_keyless =
     [\<lparr>level = Warning, message = mld_no_pk_message \<lparr>tbl_name = ''T'', tbl_columns = []\<rparr>\<rparr>]
   \<and> validateMpd mpd_keyless = []"
  by (simp add: mld_keyless_def mpd_keyless_def validateMld_def validateMpd_def
      mld_table_messages_def detectCycles_def adj_def fk_targets_def)

section \<open>The SQL generator (sql/sqlGenerator.ts)\<close>

definition isMysqlFamily :: "SqlDialect \<Rightarrow> bool" where
  "isMysqlFamily dialect = (dialect = mariadb \<or> dialect = mysql)"

definition formatSqlType :: "string \<Rightarrow> SqlDialect \<Rightarrow> string" where
  "formatSqlType sqlType dialect =
     (if dialect = postgresql \<and> sqlType = ''DATETIME'' then ''TIMESTAMP''
      else if dialect = postgresql \<and> sqlType = ''DOUBLE'' then ''DOUBLE PRECISION''
      else if isMysqlFamily dialect \<and> sqlType = ''SERIAL'' then ''INT''
      else if isMysqlFamily dialect \<and> sqlType = ''BOOLEAN'' then ''TINYINT(1)''
      else sqlType)"

fun action_text :: "ReferentialAction \<Rightarrow> string" where
  "action_text CASCADE = ''CASCADE''"
| "action_text SET_NULL = ''SET NULL''"
| "action_text SET_DEFAULT = ''SET DEFAULT''"
| "action_text RESTRICT = ''RESTRICT''"
| "action_text NO_ACTION = ''NO ACTION''"

definition constraint_sql :: "MpdConstraint \<Rightarrow> string" where
  "constraint_sql c =
     (case con_type c of
        NOT_NULL \<Rightarrow> '' NOT NULL''
      | UNIQUE \<Rightarrow> '' UNIQUE''
      | CHECK \<Rightarrow> (case con_expression c of
                    None \<Rightarrow> []
                  | Some e \<Rightarrow> if e = [] then [] else '' CHECK ('' @ e @ '')''))"

definition column_sql :: "string \<Rightarrow> SqlDialect \<Rightarrow> MpdColumn \<Rightarrow> string" where
  "column_sql q dialect col =
     ''    '' @ q @ pcol_name col @ q @ '' '' @ formatSqlType (pcol_sqlType col) dialect
     @ concat (map constraint_sql (pcol_constraints col))
     @ (if pcol_isPrimaryKey col \<and> isMysqlFamily dialect \<and> pcol_sqlType col = ''INT''
           \<and> (startsWith (toLowerCase (pcol_name col)) ''id''
                \<or> endsWith (toLowerCase (pcol_name col)) ''id'')
           \<and> pcol_foreignKey col = None
        then '' AUTO_INCREMENT'' else [])"

definition fk_sql :: "string \<Rightarrow> SqlDialect \<Rightarrow> MpdTable \<Rightarrow> MpdColumn \<Rightarrow> string list" where
  "fk_sql q dialect table col =
     (case pcol_foreignKey col of
        None \<Rightarrow> []
      | Some fk \<Rightarrow>
          (let onDelete = (case pfk_onDelete fk of None \<Rightarrow> ''CASCADE'' | Some a \<Rightarrow> action_text a);
               onUpdate = (case pfk_onUpdate fk of None \<Rightarrow> ''CASCADE'' | Some a \<Rightarrow> action_text a)
           in if isMysqlFamily dialect
              then [''    CONSTRAINT '' @ q @ ''fk_'' @ toLowerCase (ptbl_name table) @ ''_''
                      @ toLowerCase (pfk_columnName fk) @ q
                      @ '' FOREIGN KEY ('' @ q @ pfk_columnName fk @ q @ '') REFERENCES ''
                      @ q @ pfk_referencedTable fk @ q @ '' ('' @ q @ pfk_referencedColumn fk @ q
                      @ '')'' @ '' ON DELETE '' @ onDelete @ '' ON UPDATE '' @ onUpdate]
              else [''    FOREIGN KEY ('' @ q @ pfk_columnName fk @ q @ '') REFERENCES ''
                      @ q @ pfk_referencedTable fk @ q @ ''('' @ q @ pfk_referencedColumn fk @ q
                      @ '')'' @ '' ON DELETE '' @ onDelete @ '' ON UPDATE '' @ onUpdate]))"

definition generateCreateTable :: "MpdTable \<Rightarrow> SqlDialect \<Rightarrow> string" where
  "generateCreateTable table dialect =
     (let q = (if dialect = postgresql then dq else [CHR 0x60]);
          colDefs = map (column_sql q dialect) (ptbl_columns table);
          pkColumns = map (\<lambda>c. q @ pcol_name c @ q) (filter pcol_isPrimaryKey (ptbl_columns table));
          fkDefs = concat (map (fk_sql q dialect table) (ptbl_columns table));
          allParts = colDefs
            @ (if pkColumns \<noteq> [] then [''    PRIMARY KEY ('' @ join '', '' pkColumns @ '')''] else [])
            @ fkDefs
      in join [CHR 0x0A]
           [''CREATE TABLE '' @ q @ ptbl_name table @ q @ '' ('',
            join ('','' @ [CHR 0x0A]) allParts,
            if isMysqlFamily dialect
            then '') ENGINE=InnoDB DEFAULT CHARSET=utf8mb4 COLLATE=utf8mb4_unicode_ci;''
            else '');''])"

subsection \<open>topologicalSort\<close>

text \<open>
  \<open>tableMap\<close> and \<open>deps\<close> are JavaScript maps keyed by the table name. Setting a key
  again replaces its value and keeps its place in the iteration order, so the keys are
  iterated in the order of their first insertion and \<open>tableMap.get\<close> gives the last
  table of that name. \<open>deps.get(n)\<close> collects the referenced tables of every table
  named \<open>n\<close>, without the table's own name and without names that are no table.
\<close>

definition insertion_order :: "string list \<Rightarrow> string list" where
  "insertion_order xs = rev (remdups (rev xs))"

definition tableMap :: "MpdTable list \<Rightarrow> string \<Rightarrow> MpdTable option" where
  "tableMap tables n = find (\<lambda>t. ptbl_name t = n) (rev tables)"

definition pfk_targets :: "MpdTable \<Rightarrow> string list" where
  "pfk_targets t =
     concat (map (\<lambda>c. case pcol_foreignKey c of None \<Rightarrow> [] | Some fk \<Rightarrow> [pfk_referencedTable fk])
       (ptbl_columns t))"

definition deps :: "MpdTable list \<Rightarrow> string \<Rightarrow> string list" where
  "deps tables n =
     concat (map (\<lambda>t. filter (\<lambda>r. r \<noteq> ptbl_name t \<and> r \<in> set (map ptbl_name tables)) (pfk_targets t))
       (filter (\<lambda>t. ptbl_name t = n) tables))"

text \<open>\<open>names.map(name => tableMap.get(name)!)\<close>: every name is a key of the map.\<close>

definition lookup_tables :: "MpdTable list \<Rightarrow> string list \<Rightarrow> MpdTable list" where
  "lookup_tables tables names = List.map_filter (tableMap tables) names"

definition ready_names :: "MpdTable list \<Rightarrow> string list \<Rightarrow> string list \<Rightarrow> string list" where
  "ready_names tables visited remaining =
     filter (\<lambda>n. filter (\<lambda>x. x \<notin> set visited) (deps tables n) = []) remaining"

text \<open>
  The \<open>while (remaining.size > 0)\<close> loop. \<open>remaining\<close> is a set iterated in insertion
  order, from which the ready names are deleted.
\<close>

function topo_loop ::
  "MpdTable list \<Rightarrow> MpdTable list \<Rightarrow> string list \<Rightarrow> string list \<Rightarrow> MpdTable list" where
  "topo_loop tables sorted_tables visited remaining =
     (if remaining = [] then sorted_tables
      else let ready = ready_names tables visited remaining in
        if ready = [] then sorted_tables @ lookup_tables tables remaining
        else topo_loop tables (sorted_tables @ lookup_tables tables ready) (visited @ ready)
               (filter (\<lambda>n. n \<notin> set ready) remaining))"
  by pat_completeness auto
termination
proof (relation "measure (\<lambda>(tables, sorted_tables, visited, remaining). length remaining)")
  show "wf (measure (\<lambda>(tables, sorted_tables, visited, remaining). length remaining))"
    by simp
next
  fix tables sorted_tables :: "MpdTable list" and visited remaining ready :: "string list"
  assume r: "ready = ready_names tables visited remaining" and ne: "ready \<noteq> []"
  from ne obtain n where n: "n \<in> set ready"
    by (cases ready) auto
  with r have "n \<in> set remaining"
    by (simp add: ready_names_def)
  with n have "length (filter (\<lambda>n. n \<notin> set ready) remaining) < length remaining"
    by (metis (mono_tags, lifting) length_filter_less)
  then show "((tables, sorted_tables @ lookup_tables tables ready, visited @ ready,
                filter (\<lambda>n. n \<notin> set ready) remaining),
              (tables, sorted_tables, visited, remaining))
             \<in> measure (\<lambda>(tables, sorted_tables, visited, remaining). length remaining)"
    by simp
qed

declare topo_loop.simps [simp del]

definition topologicalSort :: "MpdTable list \<Rightarrow> MpdTable list" where
  "topologicalSort tables =
     topo_loop tables [] [] (insertion_order (map ptbl_name tables))"

definition sql_header :: "SqlDialect \<Rightarrow> string list" where
  "sql_header dialect =
     [''-- ============================================'',
      ''-- Script SQL g'' @ e_acute @ ''n'' @ e_acute @ ''r'' @ e_acute @ '' par le plugin Merise'',
      ''-- Dialecte : ''
        @ (case dialect of mariadb \<Rightarrow> ''MariaDB'' | mysql \<Rightarrow> ''MYSQL'' | postgresql \<Rightarrow> ''POSTGRESQL''),
      ''-- ============================================'',
      []]"

definition generateSql :: "MpdModel \<Rightarrow> SqlDialect \<Rightarrow> string" where
  "generateSql model dialect =
     join [CHR 0x0A]
       (sql_header dialect
        @ concat (map (\<lambda>table. [generateCreateTable table dialect, []])
            (topologicalSort (mpd_tables model))))"

subsection \<open>The order of the sorted tables\<close>

definition references :: "MpdTable \<Rightarrow> MpdTable \<Rightarrow> bool" where
  "references t u = (ptbl_name u \<noteq> ptbl_name t \<and> ptbl_name u \<in> set (pfk_targets t))"

definition dependency_ordered :: "MpdTable list \<Rightarrow> MpdTable list \<Rightarrow> bool" where
  "dependency_ordered tables pre =
     (\<forall>i < length pre. \<forall>u \<in> set tables. references (pre ! i) u \<longrightarrow> u \<in> set (take i pre))"

definition blocked :: "MpdTable list \<Rightarrow> MpdTable list \<Rightarrow> bool" where
  "blocked tables pre =
     (\<forall>t \<in> set tables. t \<notin> set pre \<longrightarrow> (\<exists>u \<in> set tables. references t u \<and> u \<notin> set pre))"

lemma tableMap_distinct:
  "distinct (map ptbl_name ts) \<Longrightarrow> t \<in> set ts \<Longrightarrow> tableMap ts (ptbl_name t) = Some t"
proof (induction ts rule: rev_induct)
  case Nil
  then show ?case by simp
next
  case (snoc x xs)
  then show ?case
    by (auto simp: tableMap_def)
qed

lemma insertion_order_distinct: "distinct xs \<Longrightarrow> insertion_order xs = xs"
  by (simp add: insertion_order_def distinct_remdups_id)

lemma lookup_tables_names:
  "distinct (map ptbl_name ts) \<Longrightarrow> set xs \<subseteq> set ts \<Longrightarrow> lookup_tables ts (map ptbl_name xs) = xs"
  by (induction xs) (auto simp: lookup_tables_def List.map_filter_simps tableMap_distinct)

lemma filter_same_name:
  "distinct (map ptbl_name ts) \<Longrightarrow> t \<in> set ts \<Longrightarrow> filter (\<lambda>u. ptbl_name u = ptbl_name t) ts = [t]"
proof (induction ts)
  case Nil
  then show ?case by simp
next
  case (Cons a ts)
  then show ?case
    by (auto simp: filter_empty_conv image_iff)
qed

lemma deps_distinct:
  "distinct (map ptbl_name ts) \<Longrightarrow> t \<in> set ts \<Longrightarrow>
   set (deps ts (ptbl_name t)) = {ptbl_name u | u. u \<in> set ts \<and> references t u}"
  by (auto simp: deps_def filter_same_name references_def)

lemma ready_tables:
  assumes D: "distinct (map ptbl_name ts)" and sub: "set R \<subseteq> set ts"
  shows "lookup_tables ts (filter P (map ptbl_name R)) = filter (\<lambda>t. P (ptbl_name t)) R"
proof -
  have "filter P (map ptbl_name R) = map ptbl_name (filter (\<lambda>t. P (ptbl_name t)) R)"
    by (simp add: filter_map comp_def)
  moreover have "set (filter (\<lambda>t. P (ptbl_name t)) R) \<subseteq> set ts"
    using sub by auto
  ultimately show ?thesis
    using lookup_tables_names [OF D] by simp
qed

lemma name_inj:
  "distinct (map ptbl_name ts) \<Longrightarrow> t \<in> set ts \<Longrightarrow> u \<in> set ts \<Longrightarrow>
   ptbl_name t = ptbl_name u \<Longrightarrow> t = u"
  by (meson distinct_map inj_onD)

lemma filter_self_member: "filter (\<lambda>x. x \<in> set (filter Q xs)) xs = filter Q xs"
  by (rule filter_cong) auto

lemma topo_loop_shape:
  shows "distinct (map ptbl_name ts) \<Longrightarrow> remaining = map ptbl_name (filter (\<lambda>t. t \<notin> set S) ts) \<Longrightarrow> visited = map ptbl_name S \<Longrightarrow>
         set S \<subseteq> set ts \<Longrightarrow> distinct S \<Longrightarrow> dependency_ordered ts S \<Longrightarrow>
         \<exists>pre. topo_loop ts S visited remaining = pre @ filter (\<lambda>t. t \<notin> set pre) ts
            \<and> set pre \<subseteq> set ts \<and> distinct pre \<and> dependency_ordered ts pre \<and> blocked ts pre"
proof (induction ts S visited remaining rule: topo_loop.induct)
  case (1 tables S visited remaining)
  let ?R = "filter (\<lambda>t. t \<notin> set S) tables"
  let ?ready = "ready_names tables visited remaining"
  have Rsub: "set ?R \<subseteq> set tables" by auto
  show ?case
  proof (cases "remaining = []")
    case True
    with "1.prems" have "?R = []" by simp
    then have all: "\<forall>t \<in> set tables. t \<in> set S"
      by (simp add: filter_empty_conv)
    have "topo_loop tables S visited remaining = S @ filter (\<lambda>t. t \<notin> set S) tables"
      using True \<open>?R = []\<close> by (simp add: topo_loop.simps)
    moreover have "blocked tables S"
      using all by (simp add: blocked_def)
    ultimately show ?thesis
      using "1.prems" by blast
  next
    case ne: False
    show ?thesis
    proof (cases "?ready = []")
      case True
      have "lookup_tables tables remaining = ?R"
        using lookup_tables_names [OF "1.prems"(1) Rsub] "1.prems"(2) by simp
      then have eq: "topo_loop tables S visited remaining = S @ ?R"
        using ne True by (simp add: topo_loop.simps [of tables S visited remaining])
      have "blocked tables S"
        unfolding blocked_def
      proof (intro ballI impI)
        fix t assume t: "t \<in> set tables" "t \<notin> set S"
        then have "ptbl_name t \<in> set remaining"
          using "1.prems"(2) by auto
        with True have "filter (\<lambda>x. x \<notin> set visited) (deps tables (ptbl_name t)) \<noteq> []"
          by (auto simp: ready_names_def filter_empty_conv)
        then obtain r where r: "r \<in> set (deps tables (ptbl_name t))" "r \<notin> set visited"
          by (auto simp: filter_empty_conv)
        then obtain u where u: "u \<in> set tables" "references t u" "r = ptbl_name u"
          using deps_distinct [OF "1.prems"(1) t(1)] by auto
        with r "1.prems"(3) have "u \<notin> set S" by auto
        with u show "\<exists>u \<in> set tables. references t u \<and> u \<notin> set S" by blast
      qed
      with eq "1.prems" show ?thesis by blast
    next
      case rdy: False
      let ?P = "\<lambda>n. n \<in> set ?ready"
      let ?Rdy = "filter (\<lambda>t. ptbl_name t \<in> set ?ready) ?R"
      let ?S' = "S @ ?Rdy"
      have "filter ?P remaining = ?ready"
        unfolding ready_names_def by (rule filter_self_member)
      then have rdy_eq: "filter ?P (map ptbl_name ?R) = ?ready"
        by (simp only: "1.prems"(2))
      have "lookup_tables tables (filter ?P (map ptbl_name ?R)) = ?Rdy"
        by (rule ready_tables [OF "1.prems"(1) Rsub])
      then have lk: "lookup_tables tables ?ready = ?Rdy"
        by (simp only: rdy_eq)
      have "map ptbl_name ?Rdy = filter ?P (map ptbl_name ?R)"
        by (simp only: filter_map comp_def)
      then have nm: "map ptbl_name ?Rdy = ?ready"
        by (simp only: rdy_eq)
      have inj: "\<And>t. t \<in> set tables \<Longrightarrow> t \<notin> set S \<Longrightarrow> ptbl_name t \<notin> set ?ready \<Longrightarrow> t \<notin> set ?S'"
        by auto
      have p2: "filter (\<lambda>n. n \<notin> set ?ready) remaining
          = map ptbl_name (filter (\<lambda>t. t \<notin> set ?S') tables)"
      proof -
        have "filter (\<lambda>n. n \<notin> set ?ready) remaining
            = map ptbl_name (filter (\<lambda>t. ptbl_name t \<notin> set ?ready) ?R)"
          using "1.prems"(2) by (simp add: filter_map comp_def)
        also have "filter (\<lambda>t. ptbl_name t \<notin> set ?ready) ?R = filter (\<lambda>t. t \<notin> set ?S') tables"
          by (auto intro: filter_cong)
        finally show ?thesis .
      qed
      have p3: "visited @ ?ready = map ptbl_name ?S'"
        by (simp only: map_append nm "1.prems"(3) [symmetric])
      have p4: "set ?S' \<subseteq> set tables" using "1.prems"(4) by auto
      have p5: "distinct ?S'"
        using "1.prems"(5) "1.prems"(1) by (auto simp: distinct_map)
      have p6: "dependency_ordered tables ?S'"
        unfolding dependency_ordered_def
      proof (intro allI impI ballI)
        fix i u assume i: "i < length ?S'" and u: "u \<in> set tables" and ref: "references (?S' ! i) u"
        show "u \<in> set (take i ?S')"
        proof (cases "i < length S")
          case True
          then have "u \<in> set (take i S)"
            using "1.prems"(6) u ref by (auto simp: dependency_ordered_def nth_append)
          with True show ?thesis by simp
        next
          case False
          then have "i - length S < length ?Rdy"
            using i by simp
          then have "?Rdy ! (i - length S) \<in> set ?Rdy"
            by (rule nth_mem)
          moreover have "?S' ! i = ?Rdy ! (i - length S)"
            using False by (simp only: nth_append if_False)
          ultimately obtain x where x: "?S' ! i = x" "x \<in> set ?Rdy"
            by simp
          then have t0: "x \<in> set tables" and rd0: "ptbl_name x \<in> set ?ready"
            by auto
          have t: "?S' ! i \<in> set tables" and rd: "ptbl_name (?S' ! i) \<in> set ?ready"
            using t0 rd0 by (simp_all only: x(1))
          from rd have "filter (\<lambda>x. x \<notin> set visited) (deps tables (ptbl_name (?S' ! i))) = []"
            by (simp add: ready_names_def)
          moreover have "ptbl_name u \<in> set (deps tables (ptbl_name (?S' ! i)))"
            using deps_distinct [OF "1.prems"(1) t] u ref by auto
          ultimately have "ptbl_name u \<in> set visited"
            by (auto simp: filter_empty_conv)
          then obtain v where v: "v \<in> set S" "ptbl_name v = ptbl_name u"
            using "1.prems"(3) by auto
          then have "v = u"
            using name_inj [OF "1.prems"(1)] "1.prems"(4) u by blast
          with v have "u \<in> set S" by simp
          with False show ?thesis by simp
        qed
      qed
      let ?L = "S @ lookup_tables tables ?ready"
      have q2: "filter (\<lambda>n. n \<notin> set ?ready) remaining
          = map ptbl_name (filter (\<lambda>t. t \<notin> set ?L) tables)"
        using p2 by (simp only: lk)
      have q3: "visited @ ?ready = map ptbl_name ?L"
        using p3 by (simp only: lk)
      have q4: "set ?L \<subseteq> set tables"
        using p4 by (simp only: lk)
      have q5: "distinct ?L"
        using p5 by (simp only: lk)
      have q6: "dependency_ordered tables ?L"
        using p6 by (simp only: lk)
      have step: "topo_loop tables S visited remaining
          = topo_loop tables ?L (visited @ ?ready) (filter (\<lambda>n. n \<notin> set ?ready) remaining)"
        using ne rdy by (simp add: topo_loop.simps [of tables S visited remaining] Let_def)
      from "1.IH" [OF ne refl rdy "1.prems"(1) q2 q3 q4 q5 q6] show ?thesis
        by (simp only: step)
    qed
  qed
qed

definition plain_table :: "string \<Rightarrow> string list \<Rightarrow> MpdTable" where
  "plain_table n refs =
     \<lparr>ptbl_name = n,
      ptbl_columns = map (\<lambda>r. \<lparr>pcol_name = ''id_'' @ r, pcol_sqlType = ''INT'',
          pcol_isPrimaryKey = False,
          pcol_foreignKey = Some \<lparr>pfk_columnName = ''id_'' @ r, pfk_referencedTable = r,
            pfk_referencedColumn = ''id'', pfk_onDelete = None, pfk_onUpdate = None\<rparr>,
          pcol_constraints = []\<rparr>) refs\<rparr>"

definition chain_tables :: "MpdTable list" where
  "chain_tables = [plain_table ''C'' [''B''], plain_table ''B'' [''A''], plain_table ''A'' []]"

definition twin_tables :: "MpdTable list" where
  "twin_tables = [plain_table ''T'' [''U''], plain_table ''T'' [], plain_table ''U'' []]"

text \<open>
  Claim C2, for models whose table names are pairwise distinct. \<open>topo_loop\<close> is a total
  function (its termination is proved above), so the sort always returns. Its output is a
  permutation of the tables: every table exactly once. The output splits into an ordered
  part \<open>pre\<close>, in which every table referenced by a foreign key of a table (other than
  the table itself) stands strictly before it, and the remaining tables in their order in
  the model, each of which references a table that is not in the ordered part (no table
  with fully emitted dependencies remained). \<open>generateSql\<close> emits its
  \<open>CREATE TABLE\<close> statements in that order.
\<close>

theorem topologicalSort_order:
  assumes "distinct (map ptbl_name tables)"
  shows "mset (topologicalSort tables) = mset tables
    \<and> (\<exists>pre. topologicalSort tables = pre @ filter (\<lambda>t. t \<notin> set pre) tables
          \<and> dependency_ordered tables pre \<and> blocked tables pre)
    \<and> generateSql \<lparr>mpd_tables = tables\<rparr> dialect =
        join [CHR 0x0A] (sql_header dialect
          @ concat (map (\<lambda>t. [generateCreateTable t dialect, []]) (topologicalSort tables)))"
proof -
  have io: "insertion_order (map ptbl_name tables) = map ptbl_name tables"
    using assms by (rule insertion_order_distinct)
  have "\<exists>pre. topo_loop tables [] [] (map ptbl_name tables)
            = pre @ filter (\<lambda>t. t \<notin> set pre) tables
          \<and> set pre \<subseteq> set tables \<and> distinct pre
          \<and> dependency_ordered tables pre \<and> blocked tables pre"
  proof (rule topo_loop_shape [OF assms])
    show "map ptbl_name tables = map ptbl_name (filter (\<lambda>t. t \<notin> set []) tables)"
      by simp
    show "dependency_ordered tables []"
      by (simp add: dependency_ordered_def)
  qed simp_all
  then obtain pre where pre: "topologicalSort tables = pre @ filter (\<lambda>t. t \<notin> set pre) tables"
      and sub: "set pre \<subseteq> set tables" and dp: "distinct pre"
      and ord: "dependency_ordered tables pre" and blk: "blocked tables pre"
    unfolding topologicalSort_def io by blast
  have dt: "distinct tables"
    using assms by (simp add: distinct_map)
  have "distinct (pre @ filter (\<lambda>t. t \<notin> set pre) tables)"
    using dp dt by auto
  moreover have "set (pre @ filter (\<lambda>t. t \<notin> set pre) tables) = set tables"
    using sub by auto
  ultimately have "mset (pre @ filter (\<lambda>t. t \<notin> set pre) tables) = mset tables"
    using dt by (simp only: set_eq_iff_mset_eq_distinct)
  then have m: "mset (topologicalSort tables) = mset tables"
    by (simp only: pre)
  have g: "generateSql \<lparr>mpd_tables = tables\<rparr> dialect =
        join [CHR 0x0A] (sql_header dialect
          @ concat (map (\<lambda>t. [generateCreateTable t dialect, []]) (topologicalSort tables)))"
    by (simp add: generateSql_def)
  from m pre ord blk g show ?thesis
    by blast
qed

theorem topologicalSort_order_witness:
  "distinct (map ptbl_name chain_tables)
   \<and> mset (topologicalSort chain_tables) = mset chain_tables
   \<and> (\<exists>pre. topologicalSort chain_tables = pre @ filter (\<lambda>t. t \<notin> set pre) chain_tables
          \<and> dependency_ordered chain_tables pre \<and> blocked chain_tables pre)"
proof -
  have h: "distinct (map ptbl_name chain_tables)"
    by (simp add: chain_tables_def plain_table_def)
  show ?thesis
    using h topologicalSort_order [OF h] by simp
qed

text \<open>The scenario of the spec: \<open>B\<close> references \<open>A\<close> and \<open>C\<close> references \<open>B\<close>.\<close>

lemma topologicalSort_chain:
  "topologicalSort chain_tables = [plain_table ''A'' [], plain_table ''B'' [''A''], plain_table ''C'' [''B'']]"
  by code_simp

text \<open>
  Two tables share the name \<open>T\<close>: the name-keyed map keeps the last one only, and the
  first is never emitted.
\<close>

theorem topologicalSort_counterexample:
  "topologicalSort twin_tables = [plain_table ''U'' [], plain_table ''T'' []]
   \<and> plain_table ''T'' [''U''] \<in> set twin_tables
   \<and> plain_table ''T'' [''U''] \<notin> set (topologicalSort twin_tables)"
  by code_simp

section \<open>The logical to physical converter (converter/mldToMpd.ts)\<close>

text \<open>
  The decimal text of a natural number. A template string prints a JavaScript number this
  way when the number is a non-negative integer below ten to the power 21; larger numbers are printed
  in exponent form, and fractions, negative numbers and \<open>NaN\<close> are no natural numbers. The
  parameter \<open>defaultVarcharLength\<close> is therefore a \<open>nat\<close> in this model: the settings tab
  stores a value only when \<open>parseInt\<close> gives an integer greater than 0, and the default is 255.
\<close>

function show_nat :: "nat \<Rightarrow> string" where
  "show_nat n =
     (if n < 10 then [char_of (48 + n)] else show_nat (n div 10) @ [char_of (48 + n mod 10)])"
  by pat_completeness auto
termination
  by (relation "measure id") auto

declare show_nat.simps [simp del]

subsection \<open>inferSqlType\<close>

definition inferSqlType :: "string \<Rightarrow> bool \<Rightarrow> SqlDialect \<Rightarrow> nat \<Rightarrow> string" where
  "inferSqlType colName isPrimaryKey dialect defaultVarcharLength =
     (let name = toLowerCase colName in
      if isPrimaryKey \<and> (startsWith name ''id'' \<or> endsWith name ''id'')
        then (if dialect = postgresql then ''SERIAL'' else ''INT'')
      else if startsWith name ''id_'' \<or> endsWith name ''_id'' \<or> name = ''id'' then ''INT''
      else if startsWith name ''ref_'' \<or> endsWith name ''_ref'' \<or> name = ''ref''
        then ''VARCHAR(20)''
      else if includes_str name ''datetime'' \<or> includes_str name ''timestamp''
        then (if dialect = postgresql then ''TIMESTAMP'' else ''DATETIME'')
      else if startsWith name ''date_'' \<or> endsWith name ''_date'' \<or> name = ''date''
        then ''DATE''
      else if startsWith name ''prix'' \<or> startsWith name ''montant'' \<or> startsWith name ''total''
           \<or> startsWith name ''price'' \<or> startsWith name ''amount''
        then ''DECIMAL(10,2)''
      else if startsWith name ''quantite'' \<or> startsWith name ''nombre'' \<or> startsWith name ''nb_''
           \<or> startsWith name ''quantity'' \<or> startsWith name ''count'' \<or> startsWith name ''num_''
        then ''INT''
      else if endsWith name ''_bool'' \<or> startsWith name ''est_'' \<or> startsWith name ''is_''
           \<or> startsWith name ''has_'' \<or> startsWith name ''a_''
        then ''BOOLEAN''
      else if name = ''description'' \<or> name = ''contenu'' \<or> name = ''content''
           \<or> name = ''commentaire''
        then ''TEXT''
      else if name = ''type_discriminator'' \<or> name = ''type'' then ''VARCHAR(50)''
      else ''VARCHAR('' @ show_nat defaultVarcharLength @ '')'')"

subsection \<open>convertMldToMpd\<close>

text \<open>
  \<open>resolvedTypes\<close> is a JavaScript map from the string \<open>table.column\<close> to the
  resolved type. A stored type is always a non-empty string: the tests \<open>if (refType)\<close>
  and \<open>get(...) || ...\<close> take the other branch for a missing key and for an empty string.
\<close>

definition type_key :: "string \<Rightarrow> string \<Rightarrow> string" where
  "type_key tableName columnName = tableName @ ''.'' @ columnName"

text \<open>First pass: the columns without a foreign key.\<close>

definition resolve_plain ::
  "SqlDialect \<Rightarrow> nat \<Rightarrow> string \<Rightarrow> MldColumn \<Rightarrow> (string \<rightharpoonup> string) \<Rightarrow> (string \<rightharpoonup> string)" where
  "resolve_plain dialect len tableName c m =
     (case col_foreignKey c of
        None \<Rightarrow> m(type_key tableName (col_name c)
                  \<mapsto> inferSqlType (col_name c) (col_isPrimaryKey c) dialect len)
      | Some fk \<Rightarrow> m)"

text \<open>Second pass: a foreign key takes the type recorded for the column it references.\<close>

definition fk_type ::
  "SqlDialect \<Rightarrow> nat \<Rightarrow> (string \<rightharpoonup> string) \<Rightarrow> MldForeignKey \<Rightarrow> string" where
  "fk_type dialect len m fk =
     (case m (type_key (fk_referencedTable fk) (fk_referencedColumn fk)) of
        Some refType \<Rightarrow>
          if refType \<noteq> [] then (if refType = ''SERIAL'' then ''INT'' else refType)
          else inferSqlType (fk_referencedColumn fk) False dialect len
      | None \<Rightarrow> inferSqlType (fk_referencedColumn fk) False dialect len)"

definition resolve_fk ::
  "SqlDialect \<Rightarrow> nat \<Rightarrow> string \<Rightarrow> MldColumn \<Rightarrow> (string \<rightharpoonup> string) \<Rightarrow> (string \<rightharpoonup> string)" where
  "resolve_fk dialect len tableName c m =
     (case col_foreignKey c of
        None \<Rightarrow> m
      | Some fk \<Rightarrow> m(type_key tableName (col_name c) \<mapsto> fk_type dialect len m fk))"

definition resolvedTypes :: "MldModel \<Rightarrow> SqlDialect \<Rightarrow> nat \<Rightarrow> (string \<rightharpoonup> string)" where
  "resolvedTypes mld dialect len =
     (let m1 = fold (\<lambda>t. fold (resolve_plain dialect len (tbl_name t)) (tbl_columns t))
                 (mld_tables mld) Map.empty
      in fold (\<lambda>t. fold (resolve_fk dialect len (tbl_name t)) (tbl_columns t))
           (mld_tables mld) m1)"

text \<open>Third pass: the physical columns.\<close>

definition column_constraints :: "MldColumn \<Rightarrow> MpdConstraint list" where
  "column_constraints c =
     (let constraints =
            (if col_isPrimaryKey c then [\<lparr>con_type = NOT_NULL, con_expression = None\<rparr>] else [])
            @ (if includes_str (toLowerCase (col_name c)) ''email''
               then [\<lparr>con_type = UNIQUE, con_expression = None\<rparr>] else [])
      in case col_foreignKey c of
           None \<Rightarrow> constraints
         | Some fk \<Rightarrow>
             if list_ex (\<lambda>k. con_type k = NOT_NULL) constraints then constraints
             else constraints @ [\<lparr>con_type = NOT_NULL, con_expression = None\<rparr>])"

definition mpd_column ::
  "(string \<rightharpoonup> string) \<Rightarrow> SqlDialect \<Rightarrow> nat \<Rightarrow> string \<Rightarrow> MldColumn \<Rightarrow> MpdColumn" where
  "mpd_column m dialect len tableName c =
     \<lparr>pcol_name = col_name c,
      pcol_sqlType =
        (case m (type_key tableName (col_name c)) of
           Some ty \<Rightarrow> if ty \<noteq> [] then ty
                      else inferSqlType (col_name c) (col_isPrimaryKey c) dialect len
         | None \<Rightarrow> inferSqlType (col_name c) (col_isPrimaryKey c) dialect len),
      pcol_isPrimaryKey = col_isPrimaryKey c,
      pcol_foreignKey =
        map_option (\<lambda>fk. \<lparr>pfk_columnName = fk_columnName fk,
                           pfk_referencedTable = fk_referencedTable fk,
                           pfk_referencedColumn = fk_referencedColumn fk,
                           pfk_onDelete = Some CASCADE, pfk_onUpdate = Some CASCADE\<rparr>)
          (col_foreignKey c),
      pcol_constraints = column_constraints c\<rparr>"

definition convertMldToMpd :: "MldModel \<Rightarrow> SqlDialect \<Rightarrow> nat \<Rightarrow> MpdModel" where
  "convertMldToMpd mld dialect len =
     (let m = resolvedTypes mld dialect len in
      \<lparr>mpd_tables =
         map (\<lambda>t. \<lparr>ptbl_name = tbl_name t,
                    ptbl_columns = map (mpd_column m dialect len (tbl_name t)) (tbl_columns t)\<rparr>)
           (mld_tables mld)\<rparr>)"

subsection \<open>The types of foreign-key columns\<close>

definition all_columns :: "MldModel \<Rightarrow> (string \<times> MldColumn) list" where
  "all_columns mld =
     concat (map (\<lambda>t. map (Pair (tbl_name t)) (tbl_columns t)) (mld_tables mld))"

definition column_key :: "string \<times> MldColumn \<Rightarrow> string" where
  "column_key x = type_key (fst x) (col_name (snd x))"

definition earlier_columns :: "MldModel \<Rightarrow> nat \<Rightarrow> nat \<Rightarrow> (string \<times> MldColumn) list" where
  "earlier_columns mld i j =
     concat (map (\<lambda>t. map (Pair (tbl_name t)) (tbl_columns t)) (take i (mld_tables mld)))
     @ map (Pair (tbl_name (mld_tables mld ! i))) (take j (tbl_columns (mld_tables mld ! i)))"

definition plain_columns :: "MldModel \<Rightarrow> (string \<times> MldColumn) list" where
  "plain_columns mld = filter (\<lambda>x. col_foreignKey (snd x) = None) (all_columns mld)"

definition downgrade :: "string \<Rightarrow> string" where
  "downgrade ty = (if ty = ''SERIAL'' then ''INT'' else ty)"

lemma show_nat_nonempty: "show_nat n \<noteq> []"
  by (subst show_nat.simps) (simp del: show_nat.simps)

lemma if_neq: "a \<noteq> v \<Longrightarrow> b \<noteq> v \<Longrightarrow> (if c then a else b) \<noteq> v"
  by simp

lemma inferSqlType_nonempty: "inferSqlType c pk d n \<noteq> []"
  unfolding inferSqlType_def Let_def
  by (intro if_neq) simp_all

lemma inferSqlType_plain_not_serial: "inferSqlType c False d n \<noteq> ''SERIAL''"
  unfolding inferSqlType_def Let_def
  by (simp only: simp_thms if_False) (intro if_neq; simp)

lemma fk_type_nonempty: "fk_type d n m fk \<noteq> []"
  by (simp add: fk_type_def inferSqlType_nonempty split: option.splits)

lemma fk_type_not_serial: "fk_type d n m fk \<noteq> ''SERIAL''"
  by (simp add: fk_type_def inferSqlType_plain_not_serial split: option.splits)

lemma nested_fold_flat:
  "fold (\<lambda>t. fold (f (tbl_name t)) (tbl_columns t)) ts m
   = fold (\<lambda>x. f (fst x) (snd x)) (concat (map (\<lambda>t. map (Pair (tbl_name t)) (tbl_columns t)) ts)) m"
proof (induction ts arbitrary: m)
  case Nil
  then show ?case by simp
next
  case (Cons t ts)
  have "fold (\<lambda>x. f (fst x) (snd x)) (map (Pair (tbl_name t)) (tbl_columns t)) m
        = fold (f (tbl_name t)) (tbl_columns t) m"
    by (simp add: fold_map comp_def)
  with Cons show ?case by simp
qed

lemma resolve_plain_other:
  "col_foreignKey (snd x) \<noteq> None \<or> k \<noteq> column_key x \<Longrightarrow>
   resolve_plain d n (fst x) (snd x) m k = m k"
  by (auto simp: resolve_plain_def column_key_def split: option.splits)

lemma resolve_plain_hit:
  "col_foreignKey (snd x) = None \<Longrightarrow>
   resolve_plain d n (fst x) (snd x) m (column_key x)
   = Some (inferSqlType (col_name (snd x)) (col_isPrimaryKey (snd x)) d n)"
  by (simp add: resolve_plain_def column_key_def)

lemma resolve_fk_other:
  "col_foreignKey (snd x) = None \<or> k \<noteq> column_key x \<Longrightarrow>
   resolve_fk d n (fst x) (snd x) m k = m k"
  by (auto simp: resolve_fk_def column_key_def split: option.splits)

lemma resolve_fk_hit:
  "col_foreignKey (snd x) = Some fk \<Longrightarrow>
   resolve_fk d n (fst x) (snd x) m (column_key x) = Some (fk_type d n m fk)"
  by (simp add: resolve_fk_def column_key_def)

lemma fold_plain_other:
  "k \<notin> column_key ` {x \<in> set xs. col_foreignKey (snd x) = None} \<Longrightarrow>
   fold (\<lambda>x. resolve_plain d n (fst x) (snd x)) xs m k = m k"
proof (induction xs arbitrary: m)
  case Nil
  then show ?case by simp
next
  case (Cons x xs)
  have a: "k \<notin> column_key ` {x \<in> set xs. col_foreignKey (snd x) = None}"
    using Cons.prems by auto
  have b: "col_foreignKey (snd x) \<noteq> None \<or> k \<noteq> column_key x"
    using Cons.prems by auto
  have "fold (\<lambda>x. resolve_plain d n (fst x) (snd x)) (x # xs) m k
        = fold (\<lambda>x. resolve_plain d n (fst x) (snd x)) xs (resolve_plain d n (fst x) (snd x) m) k"
    by simp
  also have "\<dots> = resolve_plain d n (fst x) (snd x) m k"
    by (rule Cons.IH [OF a])
  also have "\<dots> = m k"
    by (rule resolve_plain_other [OF b])
  finally show ?case .
qed

lemma fold_plain_hit:
  "distinct (map column_key xs) \<Longrightarrow> x \<in> set xs \<Longrightarrow> col_foreignKey (snd x) = None \<Longrightarrow>
   fold (\<lambda>x. resolve_plain d n (fst x) (snd x)) xs m (column_key x)
   = Some (inferSqlType (col_name (snd x)) (col_isPrimaryKey (snd x)) d n)"
proof (induction xs arbitrary: m)
  case Nil
  then show ?case by simp
next
  case (Cons y ys)
  show ?case
  proof (cases "x = y")
    case True
    have "column_key x \<notin> column_key ` {z \<in> set ys. col_foreignKey (snd z) = None}"
      using Cons.prems(1) True by auto
    then have "fold (\<lambda>x. resolve_plain d n (fst x) (snd x)) ys
                 (resolve_plain d n (fst x) (snd x) m) (column_key x)
               = resolve_plain d n (fst x) (snd x) m (column_key x)"
      by (rule fold_plain_other)
    then show ?thesis
      using True resolve_plain_hit [OF Cons.prems(3)] by simp
  next
    case False
    then have "x \<in> set ys" using Cons.prems(2) by simp
    moreover have "distinct (map column_key ys)" using Cons.prems(1) by simp
    ultimately show ?thesis
      using Cons.IH Cons.prems(3) by simp
  qed
qed

lemma fold_fk_other:
  "k \<notin> column_key ` {x \<in> set xs. col_foreignKey (snd x) \<noteq> None} \<Longrightarrow>
   fold (\<lambda>x. resolve_fk d n (fst x) (snd x)) xs m k = m k"
proof (induction xs arbitrary: m)
  case Nil
  then show ?case by simp
next
  case (Cons x xs)
  have a: "k \<notin> column_key ` {x \<in> set xs. col_foreignKey (snd x) \<noteq> None}"
    using Cons.prems by auto
  have b: "col_foreignKey (snd x) = None \<or> k \<noteq> column_key x"
    using Cons.prems by auto
  have "fold (\<lambda>x. resolve_fk d n (fst x) (snd x)) (x # xs) m k
        = fold (\<lambda>x. resolve_fk d n (fst x) (snd x)) xs (resolve_fk d n (fst x) (snd x) m) k"
    by simp
  also have "\<dots> = resolve_fk d n (fst x) (snd x) m k"
    by (rule Cons.IH [OF a])
  also have "\<dots> = m k"
    by (rule resolve_fk_other [OF b])
  finally show ?case .
qed

lemma fold_fk_hit:
  assumes "distinct (map column_key (pre @ x # post))" and "col_foreignKey (snd x) = Some fk"
  shows "fold (\<lambda>x. resolve_fk d n (fst x) (snd x)) (pre @ x # post) m (column_key x)
         = Some (fk_type d n (fold (\<lambda>x. resolve_fk d n (fst x) (snd x)) pre m) fk)"
proof -
  let ?f = "\<lambda>x. resolve_fk d n (fst x) (snd x)"
  have "column_key x \<notin> column_key ` {z \<in> set post. col_foreignKey (snd z) \<noteq> None}"
    using assms(1) by auto
  then have "fold ?f post (?f x (fold ?f pre m)) (column_key x) = ?f x (fold ?f pre m) (column_key x)"
    by (rule fold_fk_other)
  then show ?thesis
    using resolve_fk_hit [OF assms(2)] by simp
qed

definition sqlType_at :: "MpdModel \<Rightarrow> nat \<Rightarrow> nat \<Rightarrow> string" where
  "sqlType_at mpd i j = pcol_sqlType (ptbl_columns (mpd_tables mpd ! i) ! j)"

lemma all_columns_split:
  assumes "i < length (mld_tables mld)" and "j < length (tbl_columns (mld_tables mld ! i))"
  shows "\<exists>post. all_columns mld
           = earlier_columns mld i j
             @ (tbl_name (mld_tables mld ! i), tbl_columns (mld_tables mld ! i) ! j) # post"
proof -
  let ?ts = "mld_tables mld" and ?f = "\<lambda>t. map (Pair (tbl_name t)) (tbl_columns t)"
  let ?t = "?ts ! i"
  have "?ts = take i ?ts @ ?t # drop (Suc i) ?ts"
    using assms(1) by (simp add: id_take_nth_drop)
  then have "concat (map ?f ?ts) = concat (map ?f (take i ?ts @ ?t # drop (Suc i) ?ts))"
    by simp
  then have a: "all_columns mld
      = concat (map ?f (take i ?ts)) @ ?f ?t @ concat (map ?f (drop (Suc i) ?ts))"
    by (simp add: all_columns_def)
  have "tbl_columns ?t = take j (tbl_columns ?t) @ (tbl_columns ?t ! j) # drop (Suc j) (tbl_columns ?t)"
    using assms(2) by (simp add: id_take_nth_drop)
  then have "?f ?t = map (Pair (tbl_name ?t))
       (take j (tbl_columns ?t) @ (tbl_columns ?t ! j) # drop (Suc j) (tbl_columns ?t))"
    by simp
  then have b: "?f ?t = map (Pair (tbl_name ?t)) (take j (tbl_columns ?t))
       @ (tbl_name ?t, tbl_columns ?t ! j) # map (Pair (tbl_name ?t)) (drop (Suc j) (tbl_columns ?t))"
    by simp
  show ?thesis
    unfolding a b earlier_columns_def by simp
qed

lemma resolvedTypes_flat:
  "resolvedTypes mld d n =
     fold (\<lambda>x. resolve_fk d n (fst x) (snd x)) (all_columns mld)
       (fold (\<lambda>x. resolve_plain d n (fst x) (snd x)) (all_columns mld) Map.empty)"
  by (simp add: resolvedTypes_def Let_def nested_fold_flat all_columns_def)

lemma sqlType_at_convert:
  assumes "i < length (mld_tables mld)" and "j < length (tbl_columns (mld_tables mld ! i))"
  shows "sqlType_at (convertMldToMpd mld d n) i j
         = pcol_sqlType (mpd_column (resolvedTypes mld d n) d n (tbl_name (mld_tables mld ! i))
             (tbl_columns (mld_tables mld ! i) ! j))"
  using assms by (simp add: sqlType_at_def convertMldToMpd_def Let_def)

lemma distinct_key_eq:
  "distinct (map column_key xs) \<Longrightarrow> x \<in> set xs \<Longrightarrow> y \<in> set xs \<Longrightarrow>
   column_key x = column_key y \<Longrightarrow> x = y"
  by (meson distinct_map inj_onD)

lemma mpd_column_fk_type:
  assumes d: "distinct (map column_key (all_columns mld))"
    and sp: "all_columns mld = pre @ x # post"
    and fk: "col_foreignKey (snd x) = Some fk"
  shows "pcol_sqlType (mpd_column (resolvedTypes mld dl n) dl n (fst x) (snd x))
         = fk_type dl n (fold (\<lambda>x. resolve_fk dl n (fst x) (snd x)) pre
             (fold (\<lambda>x. resolve_plain dl n (fst x) (snd x)) (all_columns mld) Map.empty)) fk"
proof -
  let ?m1 = "fold (\<lambda>x. resolve_plain dl n (fst x) (snd x)) (all_columns mld) Map.empty"
  have "distinct (map column_key (pre @ x # post))"
    using d sp by simp
  then have "fold (\<lambda>x. resolve_fk dl n (fst x) (snd x)) (pre @ x # post) ?m1 (column_key x)
      = Some (fk_type dl n (fold (\<lambda>x. resolve_fk dl n (fst x) (snd x)) pre ?m1) fk)"
    using fk by (rule fold_fk_hit)
  then have "resolvedTypes mld dl n (type_key (fst x) (col_name (snd x)))
      = Some (fk_type dl n (fold (\<lambda>x. resolve_fk dl n (fst x) (snd x)) pre ?m1) fk)"
    unfolding resolvedTypes_flat sp [symmetric] column_key_def .
  then show ?thesis
    by (simp add: mpd_column_def fk_type_nonempty)
qed

text \<open>
  What the second pass records, for logical models in which no two columns have the same
  \<open>table.column\<close> key (so when table names are distinct, column names are unique within
  each table and no name contains a dot). Let the column at position \<open>j\<close> of table \<open>i\<close> be a
  foreign key. If the referenced table and column name a column without a foreign key (a
  primary key or a plain column), the foreign key's type in the physical model is that
  column's inferred type, with \<open>SERIAL\<close> replaced by \<open>INT\<close>. If nothing is recorded for the
  referenced key when the column is processed (no column without a foreign key has that
  key, and no foreign-key column processed earlier has it), the fallback is taken: the type
  is inferred from the referenced column's name, as a non-primary-key column. If a
  foreign-key column processed earlier has the referenced key, the type is the type of that
  column.
\<close>

lemma resolved_foreign_key_type:
  assumes keys: "distinct (map column_key (all_columns mld))"
    and i: "i < length (mld_tables mld)"
    and j: "j < length (tbl_columns (mld_tables mld ! i))"
    and fk: "col_foreignKey (tbl_columns (mld_tables mld ! i) ! j) = Some fk"
  shows "(\<forall>x \<in> set (all_columns mld).
            fst x = fk_referencedTable fk \<and> col_name (snd x) = fk_referencedColumn fk
              \<and> col_foreignKey (snd x) = None \<longrightarrow>
            sqlType_at (convertMldToMpd mld dialect len) i j
              = downgrade (inferSqlType (col_name (snd x)) (col_isPrimaryKey (snd x)) dialect len))
       \<and> (type_key (fk_referencedTable fk) (fk_referencedColumn fk)
              \<notin> column_key ` (set (plain_columns mld) \<union> set (earlier_columns mld i j)) \<longrightarrow>
            sqlType_at (convertMldToMpd mld dialect len) i j
              = inferSqlType (fk_referencedColumn fk) False dialect len)
       \<and> (\<forall>x \<in> set (earlier_columns mld i j).
            column_key x = type_key (fk_referencedTable fk) (fk_referencedColumn fk)
              \<and> col_foreignKey (snd x) \<noteq> None \<longrightarrow>
            sqlType_at (convertMldToMpd mld dialect len) i j
              = pcol_sqlType (mpd_column (resolvedTypes mld dialect len) dialect len (fst x) (snd x)))"
proof -
  let ?all = "all_columns mld" and ?E = "earlier_columns mld i j"
  let ?rf = "\<lambda>x. resolve_fk dialect len (fst x) (snd x)"
  let ?m1 = "fold (\<lambda>x. resolve_plain dialect len (fst x) (snd x)) ?all Map.empty"
  let ?c = "(tbl_name (mld_tables mld ! i), tbl_columns (mld_tables mld ! i) ! j)"
  let ?k = "type_key (fk_referencedTable fk) (fk_referencedColumn fk)"
  let ?out = "sqlType_at (convertMldToMpd mld dialect len) i j"
  obtain post where sp: "?all = ?E @ ?c # post"
    using all_columns_split [OF i j] by blast
  have Esub: "set ?E \<subseteq> set ?all"
    unfolding sp by auto
  have fk': "col_foreignKey (snd ?c) = Some fk"
    using fk by simp
  have out: "?out = fk_type dialect len (fold ?rf ?E ?m1) fk"
    using mpd_column_fk_type [OF keys sp fk', of dialect len] sqlType_at_convert [OF i j, of dialect len]
    by simp
  have A: "?out = downgrade (inferSqlType (col_name (snd x)) (col_isPrimaryKey (snd x)) dialect len)"
    if x: "x \<in> set ?all" and nm: "fst x = fk_referencedTable fk"
      "col_name (snd x) = fk_referencedColumn fk" and pl: "col_foreignKey (snd x) = None" for x
  proof -
    have kx: "column_key x = ?k"
      using nm by (simp add: column_key_def)
    have "?k \<notin> column_key ` {z \<in> set ?E. col_foreignKey (snd z) \<noteq> None}"
    proof
      assume "?k \<in> column_key ` {z \<in> set ?E. col_foreignKey (snd z) \<noteq> None}"
      then obtain z where z: "z \<in> set ?E" "col_foreignKey (snd z) \<noteq> None" "column_key z = ?k"
        by auto
      have "z \<in> set ?all"
        using z(1) Esub by blast
      then have "z = x"
        using z(3) kx by (intro distinct_key_eq [OF keys _ x]) simp_all
      with z pl show False by simp
    qed
    then have "fold ?rf ?E ?m1 ?k = ?m1 ?k"
      by (rule fold_fk_other)
    also have "?m1 ?k = Some (inferSqlType (col_name (snd x)) (col_isPrimaryKey (snd x)) dialect len)"
      using fold_plain_hit [OF keys x pl, of dialect len Map.empty] kx by simp
    finally show ?thesis
      unfolding out by (simp add: fk_type_def downgrade_def inferSqlType_nonempty)
  qed
  have B: "?out = inferSqlType (fk_referencedColumn fk) False dialect len"
    if no: "?k \<notin> column_key ` (set (plain_columns mld) \<union> set ?E)"
  proof -
    have "?k \<notin> column_key ` {z \<in> set ?E. col_foreignKey (snd z) \<noteq> None}"
      using no by auto
    then have "fold ?rf ?E ?m1 ?k = ?m1 ?k"
      by (rule fold_fk_other)
    also have "?m1 ?k = Map.empty ?k"
    proof (rule fold_plain_other)
      show "?k \<notin> column_key ` {x \<in> set ?all. col_foreignKey (snd x) = None}"
        using no by (auto simp: plain_columns_def)
    qed
    finally show ?thesis
      unfolding out by (simp add: fk_type_def)
  qed
  have C: "?out = pcol_sqlType (mpd_column (resolvedTypes mld dialect len) dialect len (fst x) (snd x))"
    if x: "x \<in> set ?E" and kx: "column_key x = ?k" and xfk: "col_foreignKey (snd x) \<noteq> None" for x
  proof -
    obtain fk2 where fk2: "col_foreignKey (snd x) = Some fk2"
      using xfk by auto
    obtain E1 E2 where E: "?E = E1 @ x # E2"
      using x by (meson split_list)
    have sp2: "?all = E1 @ x # (E2 @ ?c # post)"
      unfolding sp E by simp
    have "distinct (map column_key ((E1 @ x # E2) @ ?c # post))"
      using keys unfolding sp E .
    then have dE: "distinct (map column_key (E1 @ x # E2))"
      unfolding map_append distinct_append by blast
    let ?ty = "fk_type dialect len (fold ?rf E1 ?m1) fk2"
    have "fold ?rf (E1 @ x # E2) ?m1 (column_key x) = Some ?ty"
      using dE fk2 by (rule fold_fk_hit)
    then have "fold ?rf ?E ?m1 ?k = Some ?ty"
      unfolding E kx .
    then have "?out = ?ty"
      unfolding out by (simp add: fk_type_def [of dialect len "fold ?rf ?E ?m1"] fk_type_nonempty
          fk_type_not_serial)
    moreover have "pcol_sqlType (mpd_column (resolvedTypes mld dialect len) dialect len (fst x) (snd x))
        = ?ty"
      by (rule mpd_column_fk_type [OF keys sp2 fk2])
    ultimately show ?thesis by simp
  qed
  from A B C show ?thesis by blast
qed

definition plain_col :: "string \<Rightarrow> bool \<Rightarrow> MldColumn" where
  "plain_col n pk = \<lparr>col_name = n, col_isPrimaryKey = pk, col_foreignKey = None\<rparr>"

definition fk_col :: "string \<Rightarrow> string \<Rightarrow> string \<Rightarrow> MldColumn" where
  "fk_col n rt rc =
     \<lparr>col_name = n, col_isPrimaryKey = False,
      col_foreignKey = Some \<lparr>fk_columnName = n, fk_referencedTable = rt, fk_referencedColumn = rc\<rparr>\<rparr>"

definition mld_orders :: MldModel where
  "mld_orders =
     \<lparr>mld_tables =
        [\<lparr>tbl_name = ''ADRESSE'', tbl_columns = [plain_col ''id_adresse'' True]\<rparr>,
         \<lparr>tbl_name = ''COMMANDE'',
          tbl_columns = [plain_col ''id_commande'' True,
                         fk_col ''id_adresse_livraison'' ''ADRESSE'' ''id_adresse'',
                         fk_col ''colis'' ''COLIS'' ''ref_colis'',
                         fk_col ''copie'' ''COMMANDE'' ''id_adresse_livraison'']\<rparr>]\<rparr>"

definition mld_twins :: MldModel where
  "mld_twins =
     \<lparr>mld_tables =
        [\<lparr>tbl_name = ''A'', tbl_columns = [plain_col ''id_a'' True]\<rparr>,
         \<lparr>tbl_name = ''B'', tbl_columns = [plain_col ''ref_b'' True]\<rparr>,
         \<lparr>tbl_name = ''T'', tbl_columns = [fk_col ''x'' ''A'' ''id_a'']\<rparr>,
         \<lparr>tbl_name = ''T'', tbl_columns = [fk_col ''x'' ''B'' ''ref_b'']\<rparr>]\<rparr>"

lemma resolved_foreign_key_type_orders:
  "distinct (map column_key (all_columns mld_orders))
   \<and> col_foreignKey (tbl_columns (mld_tables mld_orders ! 1) ! 1)
       = Some \<lparr>fk_columnName = ''id_adresse_livraison'', fk_referencedTable = ''ADRESSE'',
                fk_referencedColumn = ''id_adresse''\<rparr>
   \<and> inferSqlType ''id_adresse'' True postgresql 255 = ''SERIAL''
   \<and> sqlType_at (convertMldToMpd mld_orders postgresql 255) 1 1 = ''INT''
   \<and> sqlType_at (convertMldToMpd mld_orders postgresql 255) 1 2
       = inferSqlType ''ref_colis'' False postgresql 255
   \<and> sqlType_at (convertMldToMpd mld_orders postgresql 255) 1 3
       = sqlType_at (convertMldToMpd mld_orders postgresql 255) 1 1"
proof -
  let ?fk1 = "\<lparr>fk_columnName = ''id_adresse_livraison'', fk_referencedTable = ''ADRESSE'',
                fk_referencedColumn = ''id_adresse''\<rparr>"
  let ?fk2 = "\<lparr>fk_columnName = ''colis'', fk_referencedTable = ''COLIS'',
                fk_referencedColumn = ''ref_colis''\<rparr>"
  let ?fk3 = "\<lparr>fk_columnName = ''copie'', fk_referencedTable = ''COMMANDE'',
                fk_referencedColumn = ''id_adresse_livraison''\<rparr>"
  let ?a = "(''ADRESSE'', plain_col ''id_adresse'' True)"
  let ?l = "(''COMMANDE'', fk_col ''id_adresse_livraison'' ''ADRESSE'' ''id_adresse'')"
  have k: "distinct (map column_key (all_columns mld_orders))"
    by code_simp
  have i: "1 < length (mld_tables mld_orders)"
    by code_simp
  have j1: "1 < length (tbl_columns (mld_tables mld_orders ! 1))"
    and j2: "2 < length (tbl_columns (mld_tables mld_orders ! 1))"
    and j3: "3 < length (tbl_columns (mld_tables mld_orders ! 1))"
    by code_simp+
  have f1: "col_foreignKey (tbl_columns (mld_tables mld_orders ! 1) ! 1) = Some ?fk1"
    and f2: "col_foreignKey (tbl_columns (mld_tables mld_orders ! 1) ! 2) = Some ?fk2"
    and f3: "col_foreignKey (tbl_columns (mld_tables mld_orders ! 1) ! 3) = Some ?fk3"
    by code_simp+
  have s: "inferSqlType ''id_adresse'' True postgresql 255 = ''SERIAL''"
    by code_simp
  have a: "?a \<in> set (all_columns mld_orders)"
    by code_simp
  have "sqlType_at (convertMldToMpd mld_orders postgresql 255) 1 1
        = downgrade (inferSqlType ''id_adresse'' True postgresql 255)"
    using resolved_foreign_key_type [OF k i j1 f1, of postgresql 255] a
    by (auto simp: plain_col_def)
  then have r1: "sqlType_at (convertMldToMpd mld_orders postgresql 255) 1 1 = ''INT''"
    by (simp add: s downgrade_def)
  have "type_key (fk_referencedTable ?fk2) (fk_referencedColumn ?fk2)
          \<notin> column_key ` (set (plain_columns mld_orders) \<union> set (earlier_columns mld_orders 1 2))"
    by code_simp
  then have r2: "sqlType_at (convertMldToMpd mld_orders postgresql 255) 1 2
        = inferSqlType ''ref_colis'' False postgresql 255"
    using resolved_foreign_key_type [OF k i j2 f2, of postgresql 255] by simp
  have "?l \<in> set (earlier_columns mld_orders 1 3)"
    and "column_key ?l = type_key (fk_referencedTable ?fk3) (fk_referencedColumn ?fk3)"
    and "col_foreignKey (snd ?l) \<noteq> None"
    by code_simp+
  then have "sqlType_at (convertMldToMpd mld_orders postgresql 255) 1 3
        = pcol_sqlType (mpd_column (resolvedTypes mld_orders postgresql 255) postgresql 255
            (fst ?l) (snd ?l))"
    using resolved_foreign_key_type [OF k i j3 f3, of postgresql 255] by blast
  also have "\<dots> = sqlType_at (convertMldToMpd mld_orders postgresql 255) 1 1"
    by code_simp
  finally show ?thesis
    using k f1 s r1 r2 by blast
qed

text \<open>
  Two tables are named \<open>T\<close>, each with a column \<open>x\<close>. The first \<open>x\<close> references
  \<open>A.id_a\<close>, a primary key resolved to \<open>INT\<close>, yet its type is \<open>VARCHAR(20)\<close>: the
  second \<open>x\<close>, which references \<open>B.ref_b\<close>, is recorded under the same key \<open>T.x\<close>.
\<close>

lemma resolved_type_overwritten:
  "col_foreignKey (tbl_columns (mld_tables mld_twins ! 2) ! 0)
     = Some \<lparr>fk_columnName = ''x'', fk_referencedTable = ''A'', fk_referencedColumn = ''id_a''\<rparr>
   \<and> tbl_name (mld_tables mld_twins ! 0) = ''A''
   \<and> tbl_columns (mld_tables mld_twins ! 0) ! 0 = plain_col ''id_a'' True
   \<and> sqlType_at (convertMldToMpd mld_twins mysql 255) 0 0 = ''INT''
   \<and> sqlType_at (convertMldToMpd mld_twins mysql 255) 2 0 = ''VARCHAR(20)''"
  by code_simp

section \<open>The conceptual to logical converter (converter/mcdToMld.ts)\<close>

subsection \<open>Arrays and maps\<close>

text \<open>
  \<open>xs.findIndex(P)\<close>, \<open>xs.splice(i, 1)\<close>, and the in-place update of the first element
  that \<open>xs.find(P)\<close> returns.
\<close>

fun find_index :: "('a \<Rightarrow> bool) \<Rightarrow> 'a list \<Rightarrow> nat option" where
  "find_index P [] = None"
| "find_index P (x # xs) = (if P x then Some 0 else map_option Suc (find_index P xs))"

definition remove_nth :: "nat \<Rightarrow> 'a list \<Rightarrow> 'a list" where
  "remove_nth i xs = take i xs @ drop (Suc i) xs"

fun update_first :: "('a \<Rightarrow> bool) \<Rightarrow> ('a \<Rightarrow> 'a) \<Rightarrow> 'a list \<Rightarrow> 'a list" where
  "update_first P f [] = []"
| "update_first P f (x # xs) = (if P x then f x # xs else x # update_first P f xs)"

text \<open>The entity index: a later entity of the same name replaces the earlier one.\<close>

definition entityMap :: "McdModel \<Rightarrow> string \<Rightarrow> McdEntity option" where
  "entityMap mcd n = find (\<lambda>e. ent_name e = n) (rev (entities mcd))"

definition getPrimaryKey :: "McdEntity option \<Rightarrow> string option" where
  "getPrimaryKey entity =
     (case entity of
        None \<Rightarrow> None
      | Some e \<Rightarrow> map_option attr_name (find attr_isPrimaryKey (ent_attributes e)))"

text \<open>
  The primary key when it passes the tests \<open>if (pk)\<close> and \<open>if (!targetPk) return\<close>:
  \<open>null\<close> and the empty string are both falsy.
\<close>

definition truthy_pk :: "McdEntity option \<Rightarrow> string option" where
  "truthy_pk entity =
     (case getPrimaryKey entity of
        None \<Rightarrow> None
      | Some pk \<Rightarrow> if pk = [] then None else Some pk)"

subsection \<open>Multiple relations between one pair of entities\<close>

text \<open>The default comparison of \<open>sort()\<close>: strings by their code units.\<close>

fun str_less :: "string \<Rightarrow> string \<Rightarrow> bool" where
  "str_less [] [] = False"
| "str_less [] (d # ds) = True"
| "str_less (c # cs) [] = False"
| "str_less (c # cs) (d # ds) =
     ((of_char c :: nat) < of_char d \<or> (c = d \<and> str_less cs ds))"

definition makePairKey :: "string \<Rightarrow> string \<Rightarrow> string" where
  "makePairKey a b = (if str_less b a then b @ ''|'' @ a else a @ ''|'' @ b)"

definition pair_of :: "McdRelation \<Rightarrow> string" where
  "pair_of rel =
     makePairKey (part_entityName (rel_participants rel ! 0))
       (part_entityName (rel_participants rel ! 1))"

definition get_count :: "(string \<rightharpoonup> nat) \<Rightarrow> string \<Rightarrow> nat" where
  "get_count counts k = (case counts k of None \<Rightarrow> 0 | Some c \<Rightarrow> c)"

definition buildPairCount :: "McdRelation list \<Rightarrow> (string \<rightharpoonup> nat)" where
  "buildPairCount rels =
     fold (\<lambda>rel counts.
             if length (rel_participants rel) = 2
             then counts(pair_of rel \<mapsto> get_count counts (pair_of rel) + 1)
             else counts)
       rels Map.empty"

definition isMultipleRelation :: "McdRelation \<Rightarrow> (string \<rightharpoonup> nat) \<Rightarrow> bool" where
  "isMultipleRelation rel pairCount =
     (length (rel_participants rel) = 2 \<and> get_count pairCount (pair_of rel) > 1)"

subsection \<open>Foreign keys and relation attributes\<close>

definition has_column :: "string \<Rightarrow> MldColumn list \<Rightarrow> bool" where
  "has_column n cols = list_ex (\<lambda>c. col_name c = n) cols"

definition fk_column :: "string \<Rightarrow> bool \<Rightarrow> string \<Rightarrow> string \<Rightarrow> MldColumn" where
  "fk_column n pk referencedTable referencedColumn =
     \<lparr>col_name = n, col_isPrimaryKey = pk,
      col_foreignKey = Some \<lparr>fk_columnName = n, fk_referencedTable = referencedTable,
                              fk_referencedColumn = referencedColumn\<rparr>\<rparr>"

definition fkColName :: "string \<Rightarrow> string option \<Rightarrow> string" where
  "fkColName targetPk roleName =
     (case roleName of
        None \<Rightarrow> targetPk
      | Some r \<Rightarrow> if r \<noteq> [] then targetPk @ ''_'' @ r else targetPk)"

definition addForeignKey ::
  "MldTable list \<Rightarrow> string \<Rightarrow> string \<Rightarrow> (string \<Rightarrow> McdEntity option) \<Rightarrow> string option
    \<Rightarrow> MldTable list" where
  "addForeignKey tables sourceTableName targetTableName em roleName =
     (case find (\<lambda>t. tbl_name t = sourceTableName) tables of
        None \<Rightarrow> tables
      | Some sourceTable \<Rightarrow>
          (case em targetTableName of
             None \<Rightarrow> tables
           | Some targetEntity \<Rightarrow>
               (case truthy_pk (Some targetEntity) of
                  None \<Rightarrow> tables
                | Some targetPk \<Rightarrow>
                    if has_column (fkColName targetPk roleName) (tbl_columns sourceTable)
                    then tables
                    else update_first (\<lambda>t. tbl_name t = sourceTableName)
                           (\<lambda>t. t\<lparr>tbl_columns := tbl_columns t
                                   @ [fk_column (fkColName targetPk roleName) False
                                        targetTableName targetPk]\<rparr>)
                           tables)))"

definition add_attribute :: "McdAttribute \<Rightarrow> MldColumn list \<Rightarrow> MldColumn list" where
  "add_attribute a cols =
     (if has_column (attr_name a) cols then cols
      else cols @ [\<lparr>col_name = attr_name a, col_isPrimaryKey = False, col_foreignKey = None\<rparr>])"

definition addRelationAttributes :: "MldTable list \<Rightarrow> string \<Rightarrow> McdRelation \<Rightarrow> MldTable list" where
  "addRelationAttributes tables tableName rel =
     update_first (\<lambda>t. tbl_name t = tableName)
       (\<lambda>t. t\<lparr>tbl_columns := fold add_attribute (rel_attributes rel) (tbl_columns t)\<rparr>)
       tables"

subsection \<open>Associative tables\<close>

definition createAssociativeTable ::
  "McdRelation \<Rightarrow> MldTable list \<Rightarrow> (string \<Rightarrow> McdEntity option) \<Rightarrow> MldTable list" where
  "createAssociativeTable rel tables em =
     (let pks = List.map_filter (\<lambda>p. truthy_pk (em (part_entityName p))) (rel_participants rel);
          keyColumns = List.map_filter (\<lambda>p.
              case truthy_pk (em (part_entityName p)) of
                None \<Rightarrow> None
              | Some pk \<Rightarrow>
                  Some (fk_column
                         (if length (filter (\<lambda>k. k = pk) pks) > 1
                          then pk @ ''_'' @ toLowerCase (part_entityName p) else pk)
                         True (part_entityName p) pk))
            (rel_participants rel);
          attrColumns = map (\<lambda>a. \<lparr>col_name = attr_name a, col_isPrimaryKey = False,
                                    col_foreignKey = None\<rparr>) (rel_attributes rel)
      in tables @ [\<lparr>tbl_name = rel_name rel, tbl_columns = keyColumns @ attrColumns\<rparr>])"

subsection \<open>Binary and n-ary relations\<close>

definition isMany :: "Cardinality \<Rightarrow> bool" where
  "isMany c = (c = C0n \<or> c = C1n)"

definition isOne :: "Cardinality \<Rightarrow> bool" where
  "isOne c = (c = C01 \<or> c = C11)"

definition handleBinaryRelation ::
  "McdRelation \<Rightarrow> MldTable list \<Rightarrow> (string \<Rightarrow> McdEntity option) \<Rightarrow> (string \<rightharpoonup> nat)
    \<Rightarrow> MldTable list" where
  "handleBinaryRelation rel tables em pairCount =
     (let p1 = rel_participants rel ! 0;
          p2 = rel_participants rel ! 1;
          roleName = (if isMultipleRelation rel pairCount then Some (rel_name rel) else None)
      in if isOne (part_cardinality p1) \<and> isMany (part_cardinality p2)
         then addRelationAttributes
                (addForeignKey tables (part_entityName p1) (part_entityName p2) em roleName)
                (part_entityName p1) rel
         else if isMany (part_cardinality p1) \<and> isOne (part_cardinality p2)
         then addRelationAttributes
                (addForeignKey tables (part_entityName p2) (part_entityName p1) em roleName)
                (part_entityName p2) rel
         else if isOne (part_cardinality p1) \<and> isOne (part_cardinality p2)
         then (if part_cardinality p1 = C11
               then addRelationAttributes
                      (addForeignKey tables (part_entityName p1) (part_entityName p2) em roleName)
                      (part_entityName p1) rel
               else addRelationAttributes
                      (addForeignKey tables (part_entityName p2) (part_entityName p1) em roleName)
                      (part_entityName p2) rel)
         else createAssociativeTable rel tables em)"

definition handleNaryRelation ::
  "McdRelation \<Rightarrow> MldTable list \<Rightarrow> (string \<Rightarrow> McdEntity option) \<Rightarrow> MldTable list" where
  "handleNaryRelation rel tables em = createAssociativeTable rel tables em"

definition handleRelation ::
  "(string \<Rightarrow> McdEntity option) \<Rightarrow> (string \<rightharpoonup> nat) \<Rightarrow> McdRelation \<Rightarrow> MldTable list
    \<Rightarrow> MldTable list" where
  "handleRelation em pairCount rel tables =
     (if length (rel_participants rel) = 2 then handleBinaryRelation rel tables em pairCount
      else handleNaryRelation rel tables em)"

subsection \<open>Inheritance\<close>

text \<open>
  \<open>table_per_class\<close>: the child table found by name gets the parent's primary key in
  front, as primary key and foreign key, unless it already has a foreign key to the parent;
  if the name then occurs more than once, the first column of that name without a foreign
  key is removed.
\<close>

definition references_table :: "string \<Rightarrow> MldColumn \<Rightarrow> bool" where
  "references_table n c =
     (case col_foreignKey c of None \<Rightarrow> False | Some fk \<Rightarrow> fk_referencedTable fk = n)"

definition table_per_class_child :: "string \<Rightarrow> string \<Rightarrow> string \<Rightarrow> MldTable list \<Rightarrow> MldTable list" where
  "table_per_class_child parentName parentPk childName tables =
     update_first (\<lambda>t. tbl_name t = childName)
       (\<lambda>t. if list_ex (references_table parentName) (tbl_columns t) then t
             else (let cols = fk_column parentPk True parentName parentPk # tbl_columns t
                   in t\<lparr>tbl_columns :=
                          (if length (filter (\<lambda>c. col_name c = parentPk) cols) > 1
                           then (case find_index (\<lambda>c. col_name c = parentPk \<and> col_foreignKey c = None) cols of
                                   None \<Rightarrow> cols
                                 | Some idx \<Rightarrow> remove_nth idx cols)
                           else cols)\<rparr>))
       tables"

text \<open>
  \<open>single_table\<close>: \<open>parentTable\<close> is a reference to the first table named after the
  parent. The state is the table list and the position of that table, or \<open>None\<close> once
  the table has been spliced out of the list (columns pushed to it afterwards are not part
  of the model any more).
\<close>

definition add_child_attribute :: "McdAttribute \<Rightarrow> MldColumn list \<Rightarrow> MldColumn list" where
  "add_child_attribute a cols =
     (if \<not> attr_isPrimaryKey a \<and> \<not> has_column (attr_name a) cols
      then cols @ [\<lparr>col_name = attr_name a, col_isPrimaryKey = False, col_foreignKey = None\<rparr>]
      else cols)"

definition single_table_child ::
  "(string \<Rightarrow> McdEntity option) \<Rightarrow> string \<Rightarrow> MldTable list \<times> nat option
    \<Rightarrow> MldTable list \<times> nat option" where
  "single_table_child em childName st =
     (let tables = fst st; parent = snd st;
          tables1 = (case parent of
                       None \<Rightarrow> tables
                     | Some p \<Rightarrow>
                         (case em childName of
                            None \<Rightarrow> tables
                          | Some childEntity \<Rightarrow>
                              tables[p := (tables ! p)\<lparr>tbl_columns :=
                                 fold add_child_attribute (ent_attributes childEntity)
                                   (tbl_columns (tables ! p))\<rparr>]))
      in case find_index (\<lambda>t. tbl_name t = childName) tables1 of
           None \<Rightarrow> (tables1, parent)
         | Some idx \<Rightarrow>
             (remove_nth idx tables1,
              case parent of
                None \<Rightarrow> None
              | Some p \<Rightarrow> if idx < p then Some (p - 1) else if idx = p then None else Some p))"

definition single_table_strategy ::
  "string \<Rightarrow> string list \<Rightarrow> MldTable list \<Rightarrow> (string \<Rightarrow> McdEntity option) \<Rightarrow> MldTable list" where
  "single_table_strategy parentName childNames tables em =
     (case find_index (\<lambda>t. tbl_name t = parentName) tables of
        None \<Rightarrow> tables
      | Some p \<Rightarrow>
          (let tables1 =
                 (if has_column ''type_discriminator'' (tbl_columns (tables ! p)) then tables
                  else tables[p := (tables ! p)\<lparr>tbl_columns := tbl_columns (tables ! p)
                         @ [\<lparr>col_name = ''type_discriminator'', col_isPrimaryKey = False,
                              col_foreignKey = None\<rparr>]\<rparr>])
           in fst (fold (single_table_child em) childNames (tables1, Some p))))"

text \<open>
  \<open>table_per_subclass\<close>: every attribute of the parent entity that the child table does
  not have yet is put in front of the child's columns; then the parent table is removed.
\<close>

definition add_parent_attribute :: "McdAttribute \<Rightarrow> MldColumn list \<Rightarrow> MldColumn list" where
  "add_parent_attribute a cols =
     (if has_column (attr_name a) cols then cols
      else \<lparr>col_name = attr_name a, col_isPrimaryKey = attr_isPrimaryKey a,
            col_foreignKey = None\<rparr> # cols)"

definition table_per_subclass_child :: "McdEntity \<Rightarrow> string \<Rightarrow> MldTable list \<Rightarrow> MldTable list" where
  "table_per_subclass_child parentEntity childName tables =
     update_first (\<lambda>t. tbl_name t = childName)
       (\<lambda>t. t\<lparr>tbl_columns :=
               fold add_parent_attribute (ent_attributes parentEntity) (tbl_columns t)\<rparr>)
       tables"

definition table_per_subclass_strategy ::
  "string \<Rightarrow> string list \<Rightarrow> MldTable list \<Rightarrow> (string \<Rightarrow> McdEntity option) \<Rightarrow> MldTable list" where
  "table_per_subclass_strategy parentName childNames tables em =
     (case em parentName of
        None \<Rightarrow> tables
      | Some parentEntity \<Rightarrow>
          (let tables1 = fold (table_per_subclass_child parentEntity) childNames tables
           in case find_index (\<lambda>t. tbl_name t = parentName) tables1 of
                None \<Rightarrow> tables1
              | Some idx \<Rightarrow> remove_nth idx tables1))"

definition handleInheritance ::
  "string \<Rightarrow> string list \<Rightarrow> InheritanceStrategy \<Rightarrow> MldTable list
    \<Rightarrow> (string \<Rightarrow> McdEntity option) \<Rightarrow> MldTable list" where
  "handleInheritance parentName childNames strategy tables em =
     (case truthy_pk (em parentName) of
        None \<Rightarrow> tables
      | Some parentPk \<Rightarrow>
          (case strategy of
             table_per_class \<Rightarrow>
               fold (table_per_class_child parentName parentPk) childNames tables
           | single_table \<Rightarrow> single_table_strategy parentName childNames tables em
           | table_per_subclass \<Rightarrow> table_per_subclass_strategy parentName childNames tables em))"

subsection \<open>Associative entities\<close>

definition add_assoc_attribute :: "McdAttribute \<Rightarrow> MldColumn list \<Rightarrow> MldColumn list" where
  "add_assoc_attribute a cols =
     (if has_column (attr_name a) cols then cols
      else cols @ [\<lparr>col_name = attr_name a, col_isPrimaryKey = attr_isPrimaryKey a,
                    col_foreignKey = None\<rparr>])"

definition promote_associative ::
  "McdModel \<Rightarrow> (string \<Rightarrow> McdEntity option) \<Rightarrow> McdAssociativeEntity \<Rightarrow> MldTable list
    \<Rightarrow> MldTable list" where
  "promote_associative mcd em assoc tables =
     (case find (\<lambda>r. rel_name r = assoc_relationName assoc) (relations mcd) of
        None \<Rightarrow> tables
      | Some rel \<Rightarrow>
          (let found = (\<lambda>t. tbl_name t = rel_name rel \<or> tbl_name t = assoc_name assoc);
               tables1 =
                 (if list_ex found tables then tables
                  else tables @ [\<lparr>tbl_name = assoc_name assoc,
                         tbl_columns = List.map_filter (\<lambda>p.
                             map_option (\<lambda>pk. fk_column pk True (part_entityName p) pk)
                               (truthy_pk (em (part_entityName p))))
                           (rel_participants rel)\<rparr>])
           in update_first found
                (\<lambda>t. t\<lparr>tbl_columns := fold add_assoc_attribute (assoc_attributes assoc)
                                          (tbl_columns t)\<rparr>)
                tables1))"

subsection \<open>convertMcdToMld\<close>

definition entity_table :: "McdEntity \<Rightarrow> MldTable" where
  "entity_table e =
     \<lparr>tbl_name = ent_name e,
      tbl_columns = map (\<lambda>a. \<lparr>col_name = attr_name a, col_isPrimaryKey = attr_isPrimaryKey a,
                              col_foreignKey = None\<rparr>)
                      (filter (\<lambda>a. \<not> attr_isDerived a) (ent_attributes e))\<rparr>"

definition relation_tables :: "McdModel \<Rightarrow> MldTable list" where
  "relation_tables mcd =
     fold (handleRelation (entityMap mcd) (buildPairCount (relations mcd))) (relations mcd)
       (map entity_table (entities mcd))"

definition inheritance_tables :: "McdModel \<Rightarrow> InheritanceStrategy \<Rightarrow> MldTable list" where
  "inheritance_tables mcd inheritanceStrategy =
     fold (\<lambda>inh tables.
             handleInheritance (inh_parentEntity inh) (inh_childEntities inh)
               (case inh_strategy inh of None \<Rightarrow> inheritanceStrategy | Some s \<Rightarrow> s)
               tables (entityMap mcd))
       (inheritances mcd) (relation_tables mcd)"

definition convertMcdToMld :: "McdModel \<Rightarrow> InheritanceStrategy \<Rightarrow> MldModel" where
  "convertMcdToMld mcd inheritanceStrategy =
     \<lparr>mld_tables =
        fold (promote_associative mcd (entityMap mcd)) (associativeEntities mcd)
          (inheritance_tables mcd inheritanceStrategy)\<rparr>"

subsection \<open>Example models and the primary keys of the converted tables\<close>

definition attr :: "string \<Rightarrow> McdAttribute" where
  "attr n = \<lparr>attr_name = n, attr_isPrimaryKey = False, attr_isDerived = False\<rparr>"

definition pk_attr :: "string \<Rightarrow> McdAttribute" where
  "pk_attr n = \<lparr>attr_name = n, attr_isPrimaryKey = True, attr_isDerived = False\<rparr>"

definition entity :: "string \<Rightarrow> McdAttribute list \<Rightarrow> McdEntity" where
  "entity n attrs = \<lparr>ent_name = n, ent_attributes = attrs\<rparr>"

definition participant :: "string \<Rightarrow> Cardinality \<Rightarrow> McdRelationParticipant" where
  "participant n c = \<lparr>part_entityName = n, part_cardinality = c\<rparr>"

definition relation :: "string \<Rightarrow> McdRelationParticipant list \<Rightarrow> McdAttribute list \<Rightarrow> McdRelation" where
  "relation n ps attrs = \<lparr>rel_name = n, rel_participants = ps, rel_attributes = attrs\<rparr>"

definition mcd_shop :: McdModel where
  "mcd_shop =
     \<lparr>entities =
        [entity ''CLIENT'' [pk_attr ''id_client'', attr ''nom'', attr ''email''],
         entity ''COMMANDE'' [pk_attr ''id_commande'', attr ''date_commande''],
         entity ''ADRESSE'' [pk_attr ''id_adresse'', attr ''rue'', attr ''ville''],
         entity ''ARTICLE'' [pk_attr ''ref_article'', attr ''designation'', attr ''prix_unitaire'']],
      relations =
        [relation ''passe'' [participant ''CLIENT'' C0n, participant ''COMMANDE'' C11] [],
         relation ''livraison'' [participant ''COMMANDE'' C11, participant ''ADRESSE'' C0n] [],
         relation ''facturation'' [participant ''COMMANDE'' C11, participant ''ADRESSE'' C0n] [],
         relation ''contient'' [participant ''COMMANDE'' C1n, participant ''ARTICLE'' C0n] [attr ''quantite'']],
      inheritances = [], associativeEntities = []\<rparr>"

definition mcd_same_pk :: McdModel where
  "mcd_same_pk =
     \<lparr>entities = [entity ''A'' [pk_attr ''id''], entity ''B'' [pk_attr ''id'']],
      relations = [relation ''r'' [participant ''A'' C11, participant ''B'' C01] []],
      inheritances = [], associativeEntities = []\<rparr>"

definition mcd_friends :: McdModel where
  "mcd_friends =
     \<lparr>entities = [entity ''PERSONNE'' [pk_attr ''id_personne'', attr ''nom'']],
      relations = [relation ''ami'' [participant ''PERSONNE'' C0n, participant ''PERSONNE'' C0n] []],
      inheritances = [], associativeEntities = []\<rparr>"


definition mcd_derived_pk :: McdModel where
  "mcd_derived_pk =
     \<lparr>entities = [entity ''E'' [\<lparr>attr_name = ''id'', attr_isPrimaryKey = True, attr_isDerived = True\<rparr>]],
      relations = [], inheritances = [], associativeEntities = []\<rparr>"

definition has_pk :: "MldTable \<Rightarrow> bool" where
  "has_pk t = list_ex col_isPrimaryKey (tbl_columns t)"

lemma fold_invariant:
  "I s \<Longrightarrow> (\<And>x s. x \<in> set xs \<Longrightarrow> I s \<Longrightarrow> I (f x s)) \<Longrightarrow> I (fold f xs s)"
  by (induction xs arbitrary: s) auto

lemma update_first_all:
  "list_all P xs \<Longrightarrow> (\<And>x. P x \<Longrightarrow> P (f x)) \<Longrightarrow> list_all P (update_first Q f xs)"
  by (induction xs) auto

lemma remove_nth_all: "list_all P xs \<Longrightarrow> list_all P (remove_nth i xs)"
  unfolding remove_nth_def list_all_iff
  by (metis Un_iff in_set_dropD in_set_takeD set_append)

lemma list_update_all:
  "list_all P xs \<Longrightarrow> (p < length xs \<Longrightarrow> P x) \<Longrightarrow> list_all P (xs[p := x])"
  unfolding list_all_iff
  by (metis in_set_conv_nth length_list_update nth_list_update_eq nth_list_update_neq)

lemma has_pk_mono:
  "has_pk t \<Longrightarrow> set (tbl_columns t) \<subseteq> set cols \<Longrightarrow> has_pk (t\<lparr>tbl_columns := cols\<rparr>)"
  by (auto simp: has_pk_def list_ex_iff)

lemma fold_add_attribute_mono: "set cols \<subseteq> set (fold add_attribute attrs cols)"
proof (induction attrs arbitrary: cols)
  case Nil
  then show ?case by simp
next
  case (Cons a attrs)
  have "set cols \<subseteq> set (add_attribute a cols)"
    by (auto simp: add_attribute_def)
  also have "\<dots> \<subseteq> set (fold add_attribute attrs (add_attribute a cols))"
    by (rule Cons.IH)
  finally show ?case by simp
qed

lemma fold_add_child_attribute_mono: "set cols \<subseteq> set (fold add_child_attribute attrs cols)"
proof (induction attrs arbitrary: cols)
  case Nil
  then show ?case by simp
next
  case (Cons a attrs)
  have "set cols \<subseteq> set (add_child_attribute a cols)"
    by (auto simp: add_child_attribute_def)
  also have "\<dots> \<subseteq> set (fold add_child_attribute attrs (add_child_attribute a cols))"
    by (rule Cons.IH)
  finally show ?case by simp
qed

lemma fold_add_parent_attribute_mono: "set cols \<subseteq> set (fold add_parent_attribute attrs cols)"
proof (induction attrs arbitrary: cols)
  case Nil
  then show ?case by simp
next
  case (Cons a attrs)
  have "set cols \<subseteq> set (add_parent_attribute a cols)"
    by (auto simp: add_parent_attribute_def)
  also have "\<dots> \<subseteq> set (fold add_parent_attribute attrs (add_parent_attribute a cols))"
    by (rule Cons.IH)
  finally show ?case by simp
qed

lemma fold_add_assoc_attribute_mono: "set cols \<subseteq> set (fold add_assoc_attribute attrs cols)"
proof (induction attrs arbitrary: cols)
  case Nil
  then show ?case by simp
next
  case (Cons a attrs)
  have "set cols \<subseteq> set (add_assoc_attribute a cols)"
    by (auto simp: add_assoc_attribute_def)
  also have "\<dots> \<subseteq> set (fold add_assoc_attribute attrs (add_assoc_attribute a cols))"
    by (rule Cons.IH)
  finally show ?case by simp
qed

lemma addForeignKey_has_pk:
  "list_all has_pk tables \<Longrightarrow> list_all has_pk (addForeignKey tables s t em role)"
  unfolding addForeignKey_def
  by (auto split: option.splits intro!: update_first_all has_pk_mono)

lemma addRelationAttributes_has_pk:
  "list_all has_pk tables \<Longrightarrow> list_all has_pk (addRelationAttributes tables n rel)"
  unfolding addRelationAttributes_def
  by (intro update_first_all has_pk_mono fold_add_attribute_mono)

lemma createAssociativeTable_has_pk:
  assumes "list_all has_pk tables"
    and "p \<in> set (rel_participants rel)" and "truthy_pk (em (part_entityName p)) = Some pk"
  shows "list_all has_pk (createAssociativeTable rel tables em)"
proof -
  let ?f = "\<lambda>p. case truthy_pk (em (part_entityName p)) of
                None \<Rightarrow> None
              | Some pk \<Rightarrow>
                  Some (fk_column
                         (if length (filter (\<lambda>k. k = pk)
                               (List.map_filter (\<lambda>p. truthy_pk (em (part_entityName p))) (rel_participants rel))) > 1
                          then pk @ ''_'' @ toLowerCase (part_entityName p) else pk)
                         True (part_entityName p) pk)"
  obtain c where c: "?f p = Some c" "col_isPrimaryKey c"
    using assms(3) by (simp add: fk_column_def)
  then have "c \<in> set (List.map_filter ?f (rel_participants rel))"
    using assms(2) by (auto simp: List.map_filter_def intro!: image_eqI [where x = p])
  then show ?thesis
    using assms(1) c(2)
    unfolding createAssociativeTable_def Let_def
    by (auto simp: has_pk_def list_ex_iff)
qed

definition passes_validation :: "McdModel \<Rightarrow> bool" where
  "passes_validation mcd = list_all (\<lambda>m. level m \<noteq> Error) (validateMcd mcd)"

definition usable_keys :: "McdModel \<Rightarrow> bool" where
  "usable_keys mcd =
     list_all (\<lambda>e. list_ex (\<lambda>a. attr_isPrimaryKey a \<and> \<not> attr_isDerived a) (ent_attributes e)
                  \<and> list_all (\<lambda>a. attr_isPrimaryKey a \<longrightarrow> attr_name a \<noteq> []) (ent_attributes e))
       (entities mcd)"

lemma valid_relation:
  assumes "passes_validation mcd" and "r \<in> set (relations mcd)"
  shows "2 \<le> length (rel_participants r)"
    and "p \<in> set (rel_participants r) \<Longrightarrow> part_entityName p \<in> ent_name ` set (entities mcd)"
proof -
  have all: "\<forall>m \<in> set (validateMcd mcd). level m \<noteq> Error"
    using assms(1) by (simp add: passes_validation_def list_all_iff)
  show "2 \<le> length (rel_participants r)"
  proof (rule ccontr)
    assume "\<not> 2 \<le> length (rel_participants r)"
    then have "\<exists>m \<in> set (mcd_too_few_participants r). level m = Error"
      by (simp add: mcd_too_few_participants_def)
    then have "\<exists>m \<in> set (validateMcd mcd). level m = Error"
      using assms(2) by (auto simp: validateMcd_def Let_def)
    with all show False by blast
  qed
  show "part_entityName p \<in> ent_name ` set (entities mcd)" if p: "p \<in> set (rel_participants r)"
  proof (rule ccontr)
    assume "part_entityName p \<notin> ent_name ` set (entities mcd)"
    then have "\<exists>m \<in> set (mcd_undefined_participant (map ent_name (entities mcd)) r p). level m = Error"
      by (simp add: mcd_undefined_participant_def)
    then obtain m where m: "m \<in> set (mcd_undefined_participant (map ent_name (entities mcd)) r p)"
        "level m = Error"
      by blast
    have "m \<in> set (concat (map (mcd_undefined_participant (map ent_name (entities mcd)) r)
              (rel_participants r)))"
      using p m(1) by auto
    then have "m \<in> set (concat (map (\<lambda>r. concat (map (mcd_undefined_participant
              (map ent_name (entities mcd)) r) (rel_participants r))) (relations mcd)))"
      using assms(2) by auto
    then have "m \<in> set (validateMcd mcd)"
      unfolding validateMcd_def Let_def by simp
    with m(2) have "\<exists>m \<in> set (validateMcd mcd). level m = Error"
      by blast
    with all show False by blast
  qed
qed

lemma find_SomeD: "find P xs = Some x \<Longrightarrow> x \<in> set xs \<and> P x"
  by (induction xs) (auto split: if_splits)

lemma entityMap_exists:
  assumes "n \<in> ent_name ` set (entities mcd)"
  shows "\<exists>e \<in> set (entities mcd). entityMap mcd n = Some e"
proof (cases "entityMap mcd n")
  case None
  then show ?thesis
    using assms by (auto simp: entityMap_def find_None_iff)
next
  case (Some e)
  then have "e \<in> set (rev (entities mcd))"
    unfolding entityMap_def using find_SomeD by fastforce
  with Some show ?thesis by simp
qed

lemma entityMap_in_entities:
  "entityMap mcd n = Some e \<Longrightarrow> e \<in> set (entities mcd)"
  unfolding entityMap_def using find_SomeD by fastforce

lemma usable_truthy_pk:
  assumes "usable_keys mcd" and "e \<in> set (entities mcd)"
  shows "\<exists>pk. truthy_pk (Some e) = Some pk"
proof -
  have ex: "list_ex attr_isPrimaryKey (ent_attributes e)"
    and ne: "\<forall>a \<in> set (ent_attributes e). attr_isPrimaryKey a \<longrightarrow> attr_name a \<noteq> []"
    using assms by (auto simp: usable_keys_def list_all_iff list_ex_iff)
  then obtain a where a: "find attr_isPrimaryKey (ent_attributes e) = Some a"
    by (cases "find attr_isPrimaryKey (ent_attributes e)") (auto simp: find_None_iff list_ex_iff)
  then have "attr_isPrimaryKey a" "a \<in> set (ent_attributes e)"
    using find_SomeD by fastforce+
  with ne have "attr_name a \<noteq> []" by blast
  with a show ?thesis
    by (simp add: truthy_pk_def getPrimaryKey_def)
qed

lemma participant_truthy_pk:
  assumes "passes_validation mcd" and "usable_keys mcd" and "r \<in> set (relations mcd)"
    and "p \<in> set (rel_participants r)"
  shows "\<exists>pk. truthy_pk (entityMap mcd (part_entityName p)) = Some pk"
proof -
  obtain e where "e \<in> set (entities mcd)" "entityMap mcd (part_entityName p) = Some e"
    using entityMap_exists valid_relation(2) [OF assms(1,3,4)] by blast
  then show ?thesis
    using usable_truthy_pk [OF assms(2)] by simp
qed

lemma relation_has_participant:
  assumes "passes_validation mcd" and "r \<in> set (relations mcd)"
  shows "\<exists>p. p \<in> set (rel_participants r)"
proof -
  have "rel_participants r \<noteq> []"
    using valid_relation(1) [OF assms] by auto
  then show ?thesis
    by (cases "rel_participants r") auto
qed

lemma handleRelation_has_pk:
  assumes "list_all has_pk tables"
    and "p \<in> set (rel_participants rel)" and "truthy_pk (em (part_entityName p)) = Some pk"
  shows "list_all has_pk (handleRelation em pairCount rel tables)"
proof -
  have A: "list_all has_pk (addRelationAttributes (addForeignKey tables a b em role) a rel)"
    for a b role
    using assms(1) by (intro addRelationAttributes_has_pk addForeignKey_has_pk)
  have B: "list_all has_pk (createAssociativeTable rel tables em)"
    using assms by (rule createAssociativeTable_has_pk)
  show ?thesis
    unfolding handleRelation_def handleBinaryRelation_def handleNaryRelation_def Let_def
    by (simp add: A B)
qed

lemma relation_tables_has_pk:
  assumes "passes_validation mcd" and "usable_keys mcd"
  shows "list_all has_pk (relation_tables mcd)"
  unfolding relation_tables_def
proof (rule fold_invariant)
  show "list_all has_pk (map entity_table (entities mcd))"
    using assms(2)
    by (auto simp: usable_keys_def list_all_iff has_pk_def entity_table_def list_ex_iff)
next
  fix r tables
  assume r: "r \<in> set (relations mcd)" and t: "list_all has_pk tables"
  obtain p where p: "p \<in> set (rel_participants r)"
    using relation_has_participant [OF assms(1) r] by blast
  then obtain pk where "truthy_pk (entityMap mcd (part_entityName p)) = Some pk"
    using participant_truthy_pk [OF assms r] by blast
  with t p show "list_all has_pk
      (handleRelation (entityMap mcd) (buildPairCount (relations mcd)) r tables)"
    by (rule handleRelation_has_pk)
qed

lemma find_index_not_head:
  "find_index Q (x # xs) = Some idx \<Longrightarrow> \<not> Q x \<Longrightarrow> \<exists>k. idx = Suc k"
  by (cases "find_index Q xs") auto

lemma remove_nth_Suc: "remove_nth (Suc k) (x # xs) = x # remove_nth k xs"
  by (simp add: remove_nth_def)

lemma table_per_class_child_has_pk:
  assumes "list_all has_pk tables"
  shows "list_all has_pk (table_per_class_child parentName parentPk childName tables)"
  unfolding table_per_class_child_def
proof (rule update_first_all [OF assms])
  fix t assume t: "has_pk t"
  let ?new = "fk_column parentPk True parentName parentPk"
  let ?cols = "?new # tbl_columns t"
  let ?Q = "\<lambda>c. col_name c = parentPk \<and> col_foreignKey c = None"
  have nq: "\<not> ?Q ?new"
    by (simp add: fk_column_def)
  have pk: "col_isPrimaryKey ?new"
    by (simp add: fk_column_def)
  have "list_ex col_isPrimaryKey
          (case find_index ?Q ?cols of None \<Rightarrow> ?cols | Some idx \<Rightarrow> remove_nth idx ?cols)"
  proof (cases "find_index ?Q ?cols")
    case None
    then show ?thesis using pk by simp
  next
    case (Some idx)
    then obtain k where "idx = Suc k"
      using find_index_not_head [OF Some nq] by blast
    then show ?thesis
      using Some pk by (simp add: remove_nth_Suc)
  qed
  moreover have "list_ex col_isPrimaryKey ?cols"
    using pk by simp
  ultimately show "has_pk (if list_ex (references_table parentName) (tbl_columns t) then t
             else (let cols = fk_column parentPk True parentName parentPk # tbl_columns t
                   in t\<lparr>tbl_columns :=
                          (if length (filter (\<lambda>c. col_name c = parentPk) cols) > 1
                           then (case find_index (\<lambda>c. col_name c = parentPk \<and> col_foreignKey c = None) cols of
                                   None \<Rightarrow> cols
                                 | Some idx \<Rightarrow> remove_nth idx cols)
                           else cols)\<rparr>))"
    using t by (simp add: has_pk_def Let_def)
qed

lemma single_table_child_has_pk:
  assumes "list_all has_pk (fst st)"
  shows "list_all has_pk (fst (single_table_child em childName st))"
proof -
  let ?tables = "fst st"
  have upd: "list_all has_pk (?tables[p := (?tables ! p)\<lparr>tbl_columns :=
        fold add_child_attribute attrs (tbl_columns (?tables ! p))\<rparr>])" for p attrs
  proof (rule list_update_all [OF assms])
    assume "p < length ?tables"
    then have "has_pk (?tables ! p)"
      using assms by (simp add: list_all_length)
    then show "has_pk ((?tables ! p)\<lparr>tbl_columns :=
        fold add_child_attribute attrs (tbl_columns (?tables ! p))\<rparr>)"
      by (rule has_pk_mono) (rule fold_add_child_attribute_mono)
  qed
  show ?thesis
    unfolding single_table_child_def Let_def
    using assms upd
    by (auto split: option.splits intro!: remove_nth_all)
qed

lemma single_table_strategy_has_pk:
  assumes "list_all has_pk tables"
  shows "list_all has_pk (single_table_strategy parentName childNames tables em)"
proof (cases "find_index (\<lambda>t. tbl_name t = parentName) tables")
  case None
  then show ?thesis
    using assms by (simp add: single_table_strategy_def)
next
  case (Some p)
  let ?disc = "\<lparr>col_name = ''type_discriminator'', col_isPrimaryKey = False, col_foreignKey = None\<rparr>"
  let ?t1 = "if has_column ''type_discriminator'' (tbl_columns (tables ! p)) then tables
             else tables[p := (tables ! p)\<lparr>tbl_columns := tbl_columns (tables ! p) @ [?disc]\<rparr>]"
  have "list_all has_pk (tables[p := (tables ! p)\<lparr>tbl_columns := tbl_columns (tables ! p) @ [?disc]\<rparr>])"
  proof (rule list_update_all [OF assms])
    assume "p < length tables"
    then have "has_pk (tables ! p)"
      using assms by (simp add: list_all_length)
    then show "has_pk ((tables ! p)\<lparr>tbl_columns := tbl_columns (tables ! p) @ [?disc]\<rparr>)"
      by (rule has_pk_mono) auto
  qed
  then have t1: "list_all has_pk (fst (?t1, Some p))"
    using assms by simp
  have "list_all has_pk (fst (fold (single_table_child em) childNames (?t1, Some p)))"
    by (rule fold_invariant [where I = "\<lambda>st. list_all has_pk (fst st)", OF t1])
       (rule single_table_child_has_pk)
  then show ?thesis
    using Some by (simp add: single_table_strategy_def Let_def)
qed

lemma table_per_subclass_strategy_has_pk:
  assumes "list_all has_pk tables"
  shows "list_all has_pk (table_per_subclass_strategy parentName childNames tables em)"
proof (cases "em parentName")
  case None
  then show ?thesis
    using assms by (simp add: table_per_subclass_strategy_def)
next
  case (Some parentEntity)
  have "list_all has_pk (fold (table_per_subclass_child parentEntity) childNames tables)"
  proof (rule fold_invariant [where I = "list_all has_pk", OF assms])
    fix c ts assume "list_all has_pk ts"
    then show "list_all has_pk (table_per_subclass_child parentEntity c ts)"
      unfolding table_per_subclass_child_def
      by (intro update_first_all has_pk_mono fold_add_parent_attribute_mono)
  qed
  then show ?thesis
    using Some
    by (auto simp: table_per_subclass_strategy_def Let_def split: option.splits
        intro!: remove_nth_all)
qed

lemma handleInheritance_has_pk:
  assumes "list_all has_pk tables"
  shows "list_all has_pk (handleInheritance parentName childNames strategy tables em)"
proof (cases "truthy_pk (em parentName)")
  case None
  then show ?thesis
    using assms by (simp add: handleInheritance_def)
next
  case (Some parentPk)
  have "list_all has_pk (fold (table_per_class_child parentName parentPk) childNames tables)"
    by (rule fold_invariant [where I = "list_all has_pk", OF assms])
       (rule table_per_class_child_has_pk)
  then show ?thesis
    using Some assms
    by (cases strategy)
       (simp_all add: handleInheritance_def single_table_strategy_has_pk
          table_per_subclass_strategy_has_pk)
qed

lemma map_filter_mem: "x \<in> set xs \<Longrightarrow> f x = Some y \<Longrightarrow> y \<in> set (List.map_filter f xs)"
  by (auto simp: List.map_filter_def intro!: image_eqI [where x = x])

lemma promote_associative_has_pk:
  assumes v: "passes_validation mcd" and u: "usable_keys mcd" and t: "list_all has_pk tables"
  shows "list_all has_pk (promote_associative mcd (entityMap mcd) assoc tables)"
proof (cases "find (\<lambda>r. rel_name r = assoc_relationName assoc) (relations mcd)")
  case None
  then show ?thesis
    using t by (simp add: promote_associative_def)
next
  case (Some rel)
  then have rel: "rel \<in> set (relations mcd)"
    using find_SomeD by fastforce
  obtain p where p: "p \<in> set (rel_participants rel)"
    using relation_has_participant [OF v rel] by blast
  then obtain pk where pk: "truthy_pk (entityMap mcd (part_entityName p)) = Some pk"
    using participant_truthy_pk [OF v u rel] by blast
  let ?f = "\<lambda>p. map_option (\<lambda>pk. fk_column pk True (part_entityName p) pk)
                 (truthy_pk (entityMap mcd (part_entityName p)))"
  let ?new = "\<lparr>tbl_name = assoc_name assoc,
               tbl_columns = List.map_filter ?f (rel_participants rel)\<rparr>"
  have "fk_column pk True (part_entityName p) pk \<in> set (List.map_filter ?f (rel_participants rel))"
    using p pk by (intro map_filter_mem [where x = p]) simp_all
  moreover have "col_isPrimaryKey (fk_column pk True (part_entityName p) pk)"
    by (simp add: fk_column_def)
  ultimately have "has_pk ?new"
    unfolding has_pk_def list_ex_iff by (simp only: MldTable.simps) blast
  then have t1: "list_all has_pk (tables @ [?new])"
    using t by simp
  have step: "list_all has_pk (update_first Q
      (\<lambda>t. t\<lparr>tbl_columns := fold add_assoc_attribute (assoc_attributes assoc) (tbl_columns t)\<rparr>) ts)"
    if "list_all has_pk ts" for ts Q
    using that by (intro update_first_all has_pk_mono fold_add_assoc_attribute_mono)
  show ?thesis
    using Some step [OF t] step [OF t1]
    by (simp add: promote_associative_def Let_def)
qed

text \<open>
  Claim C6, for conceptual models that pass validation and in which every entity has a
  primary-key attribute that is not derived and no primary-key attribute has an empty
  name: under every inheritance strategy, every table of the logical model has a
  primary-key column.
\<close>

theorem converted_tables_have_primary_key:
  assumes "passes_validation mcd" and "usable_keys mcd"
  shows "\<forall>t \<in> set (mld_tables (convertMcdToMld mcd strategy)).
           \<exists>c \<in> set (tbl_columns t). col_isPrimaryKey c"
proof -
  have r: "list_all has_pk (relation_tables mcd)"
    using assms by (rule relation_tables_has_pk)
  have i: "list_all has_pk (inheritance_tables mcd strategy)"
    unfolding inheritance_tables_def
    by (rule fold_invariant [where I = "list_all has_pk", OF r])
       (rule handleInheritance_has_pk)
  have "list_all has_pk (mld_tables (convertMcdToMld mcd strategy))"
    unfolding convertMcdToMld_def MldModel.simps
    by (rule fold_invariant [where I = "list_all has_pk", OF i])
       (rule promote_associative_has_pk [OF assms])
  then show ?thesis
    by (simp add: list_all_iff has_pk_def list_ex_iff)
qed

theorem converted_tables_have_primary_key_witness:
  "passes_validation mcd_shop \<and> usable_keys mcd_shop
   \<and> list_all (\<lambda>t. list_ex col_isPrimaryKey (tbl_columns t))
        (mld_tables (convertMcdToMld mcd_shop single_table))"
proof -
  have v: "passes_validation mcd_shop" and u: "usable_keys mcd_shop"
    by code_simp+
  show ?thesis
    using v u converted_tables_have_primary_key [OF v u, of single_table]
    by (simp add: list_all_iff list_ex_iff)
qed

text \<open>
  The only attribute of \<open>E\<close> is a primary key that is also derived: the model passes
  validation, the derived attribute is dropped, and the table \<open>E\<close> has no column.
\<close>

theorem converted_tables_have_primary_key_counterexample:
  "passes_validation mcd_derived_pk
   \<and> mld_tables (convertMcdToMld mcd_derived_pk table_per_class)
       = [\<lparr>tbl_name = ''E'', tbl_columns = []\<rparr>]"
  by code_simp

subsection \<open>Foreign keys of binary relations\<close>












definition mcd_couple :: McdModel where
  "mcd_couple =
     \<lparr>entities = [entity ''MARI'' [pk_attr ''id_mari''], entity ''EPOUSE'' [pk_attr ''id_epouse'']],
      relations = [relation ''mariage'' [participant ''MARI'' C11, participant ''EPOUSE'' C11]
                     [attr ''date_mariage'']],
      inheritances = [], associativeEntities = []\<rparr>"

text \<open>
  Claim C4 fails when the table of the \<open>(1,1)\<close> participant already has a column named like
  the primary key of the other entity. In \<open>mcd_same_pk\<close> the relation \<open>r\<close> joins \<open>A\<close> with
  cardinality \<open>(1,1)\<close> and \<open>B\<close> with cardinality \<open>(0,1)\<close>, and both primary keys are named
  \<open>id\<close>; \<open>validateMcd\<close> gives no message. The foreign key belongs on \<open>A\<close>, but
  \<open>addForeignKey\<close> finds the column \<open>id\<close> in the table \<open>A\<close>, which is the primary key of \<open>A\<close>
  itself, takes it for the foreign key and adds nothing: the logical model has no foreign key
  at all and the relation is lost. In \<open>mcd_couple\<close>, where the primary keys have different
  names and both participants are \<open>(1,1)\<close>, the first-declared participant \<open>MARI\<close> gets the
  foreign key and the attribute carried by the relation.
\<close>

theorem one_to_one_foreign_key_lost:
  "validateMcd mcd_same_pk = []
   \<and> relations mcd_same_pk = [relation ''r'' [participant ''A'' C11, participant ''B'' C01] []]
   \<and> mld_tables (convertMcdToMld mcd_same_pk table_per_class)
       = [\<lparr>tbl_name = ''A'',
           tbl_columns = [\<lparr>col_name = ''id'', col_isPrimaryKey = True, col_foreignKey = None\<rparr>]\<rparr>,
          \<lparr>tbl_name = ''B'',
           tbl_columns = [\<lparr>col_name = ''id'', col_isPrimaryKey = True, col_foreignKey = None\<rparr>]\<rparr>]
   \<and> \<not> list_ex (\<lambda>t. list_ex (\<lambda>c. col_foreignKey c \<noteq> None) (tbl_columns t))
          (mld_tables (convertMcdToMld mcd_same_pk table_per_class))
   \<and> validateMcd mcd_couple = []
   \<and> mld_tables (convertMcdToMld mcd_couple table_per_class)
       = [\<lparr>tbl_name = ''MARI'',
           tbl_columns = [\<lparr>col_name = ''id_mari'', col_isPrimaryKey = True, col_foreignKey = None\<rparr>,
                          fk_column ''id_epouse'' False ''EPOUSE'' ''id_epouse'',
                          \<lparr>col_name = ''date_mariage'', col_isPrimaryKey = False,
                             col_foreignKey = None\<rparr>]\<rparr>,
          \<lparr>tbl_name = ''EPOUSE'',
           tbl_columns = [\<lparr>col_name = ''id_epouse'', col_isPrimaryKey = True,
                            col_foreignKey = None\<rparr>]\<rparr>]"
  by code_simp

definition fk_owner :: "McdRelationParticipant \<Rightarrow> McdRelationParticipant \<Rightarrow> McdRelationParticipant" where
  "fk_owner p1 p2 =
     (if isOne (part_cardinality p1) \<and> isMany (part_cardinality p2) then p1
      else if isMany (part_cardinality p1) \<and> isOne (part_cardinality p2) then p2
      else if part_cardinality p1 = C11 then p1 else p2)"

definition fk_target :: "McdRelationParticipant \<Rightarrow> McdRelationParticipant \<Rightarrow> McdRelationParticipant" where
  "fk_target p1 p2 =
     (if isOne (part_cardinality p1) \<and> isMany (part_cardinality p2) then p2
      else if isMany (part_cardinality p1) \<and> isOne (part_cardinality p2) then p1
      else if part_cardinality p1 = C11 then p2 else p1)"








lemma fkColName_role_distinct:
  "r \<noteq> r' \<Longrightarrow> fkColName pk (Some r) \<noteq> fkColName pk (Some r')"
  by (auto simp: fkColName_def dest: arg_cong [where f = length])


definition owner_name :: "McdRelation \<Rightarrow> string" where
  "owner_name rel =
     part_entityName (fk_owner (rel_participants rel ! 0) (rel_participants rel ! 1))"

definition target_name :: "McdRelation \<Rightarrow> string" where
  "target_name rel =
     part_entityName (fk_target (rel_participants rel ! 0) (rel_participants rel ! 1))"

definition one_sided :: "McdRelation \<Rightarrow> bool" where
  "one_sided rel =
     (length (rel_participants rel) = 2
      \<and> \<not> (isMany (part_cardinality (rel_participants rel ! 0))
           \<and> isMany (part_cardinality (rel_participants rel ! 1))))"

definition same_pair :: "McdRelation \<Rightarrow> McdRelation \<Rightarrow> bool" where
  "same_pair rel rel' =
     (length (rel_participants rel) = 2 \<and> length (rel_participants rel') = 2
      \<and> set (map part_entityName (rel_participants rel))
          = set (map part_entityName (rel_participants rel')))"

definition role_foreign_key :: "McdModel \<Rightarrow> McdRelation \<Rightarrow> MldColumn option" where
  "role_foreign_key mcd rel =
     map_option (\<lambda>pk. fk_column (pk @ ''_'' @ rel_name rel) False (target_name rel) pk)
       (truthy_pk (entityMap mcd (target_name rel)))"

definition relation_tables_before :: "McdModel \<Rightarrow> nat \<Rightarrow> MldTable list" where
  "relation_tables_before mcd i =
     fold (handleRelation (entityMap mcd) (buildPairCount (relations mcd)))
       (take i (relations mcd)) (map entity_table (entities mcd))"

definition name_free :: "McdModel \<Rightarrow> nat \<Rightarrow> bool" where
  "name_free mcd i =
     (case find (\<lambda>t. tbl_name t = owner_name (relations mcd ! i)) (relation_tables_before mcd i) of
        None \<Rightarrow> True
      | Some t \<Rightarrow>
          (case role_foreign_key mcd (relations mcd ! i) of
             None \<Rightarrow> True
           | Some c \<Rightarrow> \<not> has_column (col_name c) (tbl_columns t)))"

definition removed_by_inheritance :: "McdModel \<Rightarrow> InheritanceStrategy \<Rightarrow> string list" where
  "removed_by_inheritance mcd inheritanceStrategy =
     concat (map (\<lambda>inh.
         case (case inh_strategy inh of None \<Rightarrow> inheritanceStrategy | Some s \<Rightarrow> s) of
           table_per_class \<Rightarrow> []
         | single_table \<Rightarrow> inh_childEntities inh
         | table_per_subclass \<Rightarrow> [inh_parentEntity inh])
       (inheritances mcd))"






























definition mcd_merged :: McdModel where
  "mcd_merged =
     \<lparr>entities = [entity ''PERSONNE'' [pk_attr ''id_personne''],
                  entity ''SALARIE'' [pk_attr ''id_salarie''],
                  entity ''SERVICE'' [pk_attr ''id_service'']],
      relations = [relation ''affecte'' [participant ''SALARIE'' C11, participant ''SERVICE'' C0n] [],
                   relation ''dirige'' [participant ''SALARIE'' C01, participant ''SERVICE'' C0n] []],
      inheritances = [\<lparr>inh_name = ''statut'', inh_parentEntity = ''PERSONNE'',
                       inh_childEntities = [''SALARIE''], inh_strategy = Some single_table\<rparr>],
      associativeEntities = []\<rparr>"

definition mcd_taken :: McdModel where
  "mcd_taken =
     \<lparr>entities = [entity ''A'' [pk_attr ''id_a'', attr ''id_b_r1''], entity ''B'' [pk_attr ''id_b'']],
      relations = [relation ''r1'' [participant ''A'' C11, participant ''B'' C0n] [],
                   relation ''r2'' [participant ''A'' C01, participant ''B'' C0n] []],
      inheritances = [], associativeEntities = []\<rparr>"

text \<open>
  The two hypotheses on the owner's table are needed. In \<open>mcd_merged\<close> the owner \<open>SALARIE\<close> of
  both relations is a child of a \<open>single_table\<close> inheritance: its table gets both foreign keys
  and is then removed, and only the attributes of the entity are copied to the parent. In
  \<open>mcd_taken\<close> the entity \<open>A\<close> has an attribute named \<open>id_b_r1\<close>: \<open>addForeignKey\<close> finds a column
  of that name and adds no foreign key for \<open>r1\<close>.
\<close>

lemma role_foreign_key_hypotheses_needed:
  "passes_validation mcd_merged \<and> usable_keys mcd_merged
   \<and> same_pair (relations mcd_merged ! 0) (relations mcd_merged ! 1)
   \<and> one_sided (relations mcd_merged ! 0) \<and> one_sided (relations mcd_merged ! 1)
   \<and> name_free mcd_merged 0 \<and> name_free mcd_merged 1
   \<and> removed_by_inheritance mcd_merged table_per_class = [''SALARIE'']
   \<and> mld_tables (convertMcdToMld mcd_merged table_per_class)
       = [\<lparr>tbl_name = ''PERSONNE'',
           tbl_columns = [\<lparr>col_name = ''id_personne'', col_isPrimaryKey = True, col_foreignKey = None\<rparr>,
                          \<lparr>col_name = ''type_discriminator'', col_isPrimaryKey = False,
                             col_foreignKey = None\<rparr>]\<rparr>,
          \<lparr>tbl_name = ''SERVICE'',
           tbl_columns = [\<lparr>col_name = ''id_service'', col_isPrimaryKey = True, col_foreignKey = None\<rparr>]\<rparr>]
   \<and> passes_validation mcd_taken \<and> usable_keys mcd_taken
   \<and> same_pair (relations mcd_taken ! 0) (relations mcd_taken ! 1)
   \<and> one_sided (relations mcd_taken ! 0) \<and> one_sided (relations mcd_taken ! 1)
   \<and> \<not> name_free mcd_taken 0 \<and> name_free mcd_taken 1
   \<and> removed_by_inheritance mcd_taken table_per_class = []
   \<and> mld_tables (convertMcdToMld mcd_taken table_per_class)
       = [\<lparr>tbl_name = ''A'',
           tbl_columns = [\<lparr>col_name = ''id_a'', col_isPrimaryKey = True, col_foreignKey = None\<rparr>,
                          \<lparr>col_name = ''id_b_r1'', col_isPrimaryKey = False, col_foreignKey = None\<rparr>,
                          fk_column ''id_b_r2'' False ''B'' ''id_b'']\<rparr>,
          \<lparr>tbl_name = ''B'',
           tbl_columns = [\<lparr>col_name = ''id_b'', col_isPrimaryKey = True, col_foreignKey = None\<rparr>]\<rparr>]"
  by code_simp

text \<open>
  Claim C7 fails on a reflexive many-to-many relation. The model \<open>mcd_friends\<close> (one entity
  \<open>PERSONNE\<close> and the relation \<open>ami\<close> between \<open>PERSONNE\<close> and \<open>PERSONNE\<close>) gets no message from
  \<open>validateMcd\<close>. In \<open>createAssociativeTable\<close> both participants have the primary key
  \<open>id_personne\<close>, so the name conflict is detected, and each column is suffixed with the
  lower-cased entity name, which is the same for both: the table \<open>ami\<close> has two columns named
  \<open>id_personne_personne\<close>.
\<close>

theorem associative_table_duplicate_columns:
  "validateMcd mcd_friends = []
   \<and> passes_validation mcd_friends
   \<and> map (\<lambda>t. (tbl_name t, map col_name (tbl_columns t)))
        (mld_tables (convertMcdToMld mcd_friends table_per_class))
       = [(''PERSONNE'', [''id_personne'', ''nom'']),
          (''ami'', [''id_personne_personne'', ''id_personne_personne''])]
   \<and> \<not> list_all (\<lambda>t. distinct (map col_name (tbl_columns t)))
          (mld_tables (convertMcdToMld mcd_friends table_per_class))"
  by code_simp

subsection \<open>A foreign key to a key that is itself a foreign key\<close>

definition mcd_staff :: McdModel where
  "mcd_staff =
     \<lparr>entities = [entity ''PERSONNE'' [pk_attr ''identifiant'', attr ''nom''],
                  entity ''CONTRAT'' [pk_attr ''id_contrat''],
                  entity ''SALARIE'' [pk_attr ''identifiant'', attr ''salaire'']],
      relations = [relation ''signe'' [participant ''CONTRAT'' C11, participant ''SALARIE'' C0n] []],
      inheritances = [\<lparr>inh_name = ''statut'', inh_parentEntity = ''PERSONNE'',
                       inh_childEntities = [''SALARIE''], inh_strategy = None\<rparr>],
      associativeEntities = []\<rparr>"

definition column_types :: "MpdModel \<Rightarrow> (string \<times> (string \<times> string \<times> (string \<times> string) option) list) list" where
  "column_types mpd =
     map (\<lambda>t. (ptbl_name t,
                map (\<lambda>c. (pcol_name c, pcol_sqlType c,
                           map_option (\<lambda>fk. (pfk_referencedTable fk, pfk_referencedColumn fk))
                             (pcol_foreignKey c)))
                  (ptbl_columns t)))
       (mpd_tables mpd)"

text \<open>
  Claim C1 fails when the referenced primary key is itself a foreign key of a table that
  comes later in the model. In \<open>mcd_staff\<close> the entity \<open>SALARIE\<close> inherits from \<open>PERSONNE\<close>
  (strategy \<open>table_per_class\<close>) and \<open>CONTRAT\<close> is linked to \<open>SALARIE\<close>; no validator gives a
  message. In the logical model, \<open>SALARIE.identifiant\<close> is a primary key and a foreign key to
  \<open>PERSONNE.identifiant\<close>, and \<open>CONTRAT.identifiant\<close> is a foreign key to
  \<open>SALARIE.identifiant\<close>. The second pass of \<open>convertMldToMpd\<close> follows the order of the
  tables: when it reaches \<open>CONTRAT.identifiant\<close>, nothing is recorded yet for
  \<open>SALARIE.identifiant\<close>, so the type is guessed from the name \<open>identifiant\<close> and is
  \<open>VARCHAR(255)\<close>, while the referenced primary key gets the type \<open>INT\<close>.
\<close>

theorem foreign_key_type_mismatch:
  "validateMcd mcd_staff = []
   \<and> mld_tables (convertMcdToMld mcd_staff table_per_class)
       = [\<lparr>tbl_name = ''PERSONNE'',
           tbl_columns = [\<lparr>col_name = ''identifiant'', col_isPrimaryKey = True, col_foreignKey = None\<rparr>,
                          \<lparr>col_name = ''nom'', col_isPrimaryKey = False, col_foreignKey = None\<rparr>]\<rparr>,
          \<lparr>tbl_name = ''CONTRAT'',
           tbl_columns = [\<lparr>col_name = ''id_contrat'', col_isPrimaryKey = True, col_foreignKey = None\<rparr>,
                          fk_column ''identifiant'' False ''SALARIE'' ''identifiant'']\<rparr>,
          \<lparr>tbl_name = ''SALARIE'',
           tbl_columns = [fk_column ''identifiant'' True ''PERSONNE'' ''identifiant'',
                          \<lparr>col_name = ''salaire'', col_isPrimaryKey = False, col_foreignKey = None\<rparr>]\<rparr>]
   \<and> validateMld (convertMcdToMld mcd_staff table_per_class) = []
   \<and> column_types (convertMldToMpd (convertMcdToMld mcd_staff table_per_class) mysql 255)
       = [(''PERSONNE'', [(''identifiant'', ''INT'', None), (''nom'', ''VARCHAR(255)'', None)]),
          (''CONTRAT'', [(''id_contrat'', ''INT'', None),
                         (''identifiant'', ''VARCHAR(255)'', Some (''SALARIE'', ''identifiant''))]),
          (''SALARIE'', [(''identifiant'', ''INT'', Some (''PERSONNE'', ''identifiant'')),
                         (''salaire'', ''VARCHAR(255)'', None)])]
   \<and> validateMpd (convertMldToMpd (convertMcdToMld mcd_staff table_per_class) mysql 255) = []"
  by code_simp

section \<open>The MCD parser (parser/mcdParser.ts)\<close>

subsection \<open>Character classes and string helpers\<close>

text \<open>
  \<open>\s\<close>, \<open>\w\<close>, \<open>\d\<close> and the line terminators that \<open>.\<close> does not match, on ASCII
  characters. In JavaScript \<open>\s\<close> and \<open>trim\<close> also take the no-break space and the other
  Unicode spaces, and \<open>.\<close> also stops at the separators U+2028 and U+2029; a text with one of
  these characters is outside this model.
\<close>

definition is_space :: "char \<Rightarrow> bool" where
  "is_space c = (let n = (of_char c :: nat) in (9 \<le> n \<and> n \<le> 13) \<or> n = 32)"

definition is_digit :: "char \<Rightarrow> bool" where
  "is_digit c = (let n = (of_char c :: nat) in 48 \<le> n \<and> n \<le> 57)"

definition is_word_char :: "char \<Rightarrow> bool" where
  "is_word_char c =
     (let n = (of_char c :: nat)
      in (48 \<le> n \<and> n \<le> 57) \<or> (65 \<le> n \<and> n \<le> 90) \<or> (97 \<le> n \<and> n \<le> 122) \<or> n = 95)"

definition is_line_terminator :: "char \<Rightarrow> bool" where
  "is_line_terminator c = (c = CHR 0x0A \<or> c = CHR 0x0D)"

definition trim_end :: "string \<Rightarrow> string" where
  "trim_end s = rev (dropWhile is_space (rev s))"

definition trim :: "string \<Rightarrow> string" where
  "trim s = trim_end (dropWhile is_space s)"

text \<open>\<open>s.split(c)\<close> for a one-character separator: never empty.\<close>

definition cons_first :: "char \<Rightarrow> string list \<Rightarrow> string list" where
  "cons_first c parts = (c # hd parts) # tl parts"

fun split_on :: "char \<Rightarrow> string \<Rightarrow> string list" where
  "split_on sep [] = [[]]"
| "split_on sep (c # cs) =
     (if c = sep then [] # split_on sep cs else cons_first c (split_on sep cs))"


text \<open>\<open>s.replace(/,\s*$/, '')\<close>: a comma followed by whitespace only up to the end is cut off.\<close>

definition strip_trailing_comma :: "string \<Rightarrow> string" where
  "strip_trailing_comma s =
     (let t = trim_end s in if t \<noteq> [] \<and> last t = CHR '','' then butlast t else s)"


subsection \<open>Extraction of the blocks\<close>













subsection \<open>Items of a block body\<close>





subsection \<open>Attributes and entities\<close>





subsection \<open>Relations\<close>









subsection \<open>Inheritance\<close>






subsection \<open>Associative entities\<close>


subsection \<open>parseMcd\<close>






subsection \<open>Comment lines\<close>





subsection \<open>Invalid cardinalities\<close>























section \<open>The micro-syntax of logical and physical models\<close>

subsection \<open>Pattern helpers\<close>

text \<open>
  \<open>take_word\<close> is a greedy \<open>(\w+)\<close>, \<open>strip_ci p\<close> a literal \<open>p\<close> (given in upper case) under
  the flag \<open>i\<close>, \<open>spaces1\<close> a greedy \<open>\s+\<close>. \<open>search f\<close> is the leftmost match of a pattern that
  is not anchored, \<open>f\<close> being the match at the start of a text.
\<close>

definition take_word :: "string \<Rightarrow> (string \<times> string) option" where
  "take_word s =
     (let w = takeWhile is_word_char s
      in if w = [] then None else Some (w, dropWhile is_word_char s))"

definition strip_ci :: "string \<Rightarrow> string \<Rightarrow> string option" where
  "strip_ci p s =
     (if length p \<le> length s \<and> toUpperCase (take (length p) s) = p
      then Some (drop (length p) s) else None)"

definition spaces1 :: "string \<Rightarrow> string option" where
  "spaces1 s = (if takeWhile is_space s = [] then None else Some (dropWhile is_space s))"

fun search :: "(string \<Rightarrow> 'a option) \<Rightarrow> string \<Rightarrow> 'a option" where
  "search f [] = f []"
| "search f (c # cs) = (case f (c # cs) of Some r \<Rightarrow> Some r | None \<Rightarrow> search f cs)"

definition test_ci :: "string \<Rightarrow> string \<Rightarrow> bool" where
  "test_ci p s = (search (strip_ci p) s \<noteq> None)"

text \<open>\<open>/^TABLE\s+(\w+)\s*\{?\s*$/i\<close>\<close>

definition match_table :: "string \<Rightarrow> string option" where
  "match_table line =
     Option.bind (strip_ci ''TABLE'' line) (\<lambda>r.
     Option.bind (spaces1 r) (\<lambda>r.
     Option.bind (take_word r) (\<lambda>(name, r).
       let r' = dropWhile is_space r
       in if r' = [] \<or> (hd r' = CHR ''{'' \<and> list_all is_space (tl r')) then Some name else None)))"

subsection \<open>generateMldText (main.ts)\<close>

definition mld_flags :: "MldColumn \<Rightarrow> string list" where
  "mld_flags col =
     (if col_isPrimaryKey col then [''[PK]''] else [])
     @ (case col_foreignKey col of
          None \<Rightarrow> []
        | Some fk \<Rightarrow> [''[FK -> '' @ fk_referencedTable fk @ ''.'' @ fk_referencedColumn fk @ '']''])"

definition mld_column_line :: "MldColumn \<Rightarrow> string" where
  "mld_column_line col =
     ''    '' @ col_name col
     @ (if length (mld_flags col) > 0 then '' '' @ join '' '' (mld_flags col) else [])"

definition mld_table_lines :: "MldTable \<Rightarrow> string list" where
  "mld_table_lines t =
     [''TABLE '' @ tbl_name t @ '' {''] @ map mld_column_line (tbl_columns t) @ [''}'', []]"

definition generateMldText :: "MldModel \<Rightarrow> string" where
  "generateMldText model = trim (join [CHR 0x0A] (concat (map mld_table_lines (mld_tables model))))"

subsection \<open>parseMld (parser/mldParser.ts)\<close>

text \<open>\<open>/\[FK\s*->\s*(\w+)\.(\w+)\]/i\<close> at the start of a text.\<close>

definition mld_fk_at :: "string \<Rightarrow> (string \<times> string) option" where
  "mld_fk_at s =
     Option.bind (strip_ci ''[FK'' s) (\<lambda>r.
     Option.bind (strip_ci ''->'' (dropWhile is_space r)) (\<lambda>r.
     Option.bind (take_word (dropWhile is_space r)) (\<lambda>(t, r).
     Option.bind (strip_ci ''.'' r) (\<lambda>r.
     Option.bind (take_word r) (\<lambda>(c, r).
     Option.bind (strip_ci '']'' r) (\<lambda>r. Some (t, c)))))))"

text \<open>
  \<open>/^(\w+)\s*(.*)?$/\<close>: the flags are the rest after the name and the whitespace, and must
  not contain a line terminator.
\<close>

definition parseMldColumn :: "string \<Rightarrow> MldColumn option" where
  "parseMldColumn line =
     (let cleaned = trim (strip_trailing_comma line) in
      case take_word cleaned of
        None \<Rightarrow> None
      | Some (name, r) \<Rightarrow>
          (let flags = dropWhile is_space r in
           if list_ex is_line_terminator flags then None
           else Some \<lparr>col_name = name,
                       col_isPrimaryKey = test_ci ''[PK]'' flags,
                       col_foreignKey =
                         map_option (\<lambda>(t, c). \<lparr>fk_columnName = name, fk_referencedTable = t,
                                                  fk_referencedColumn = c\<rparr>)
                           (search mld_fk_at flags)\<rparr>))"

record MldParseResult =
  mres_model :: MldModel
  mres_errors :: "string list"

text \<open>
  The inner loop: the columns and errors so far and the lines from index \<open>i\<close> on; the result
  has the lines that are left after the loop.
\<close>

fun mld_columns ::
  "string \<Rightarrow> MldColumn list \<Rightarrow> string list \<Rightarrow> string list
    \<Rightarrow> MldColumn list \<times> string list \<times> string list" where
  "mld_columns tableName cols errors [] = (cols, errors, [])"
| "mld_columns tableName cols errors (l # ls) =
     (let colLine = trim l in
      if colLine = ''}'' then (cols, errors, ls)
      else if colLine = [] then mld_columns tableName cols errors ls
      else
        (case parseMldColumn colLine of
           Some col \<Rightarrow> mld_columns tableName (cols @ [col]) errors ls
         | None \<Rightarrow>
             if CHR ''}'' \<in> set colLine then (cols, errors, ls)
             else mld_columns tableName cols
                    (errors @ [''Colonne MLD invalide : '' @ quoted colLine @ '' dans la table ''
                               @ quoted tableName @ ''.''])
                    ls))"

lemma mld_columns_length:
  "length (snd (snd (mld_columns tableName cols errors ls))) \<le> length ls"
  by (induction ls arbitrary: cols errors) (auto simp: Let_def le_SucI split: option.splits)

lemma mld_columns_less:
  "length (snd (snd (mld_columns tableName cols errors ls))) < Suc (length ls)"
  using mld_columns_length [of tableName cols errors ls] by simp

function mld_tables_from ::
  "MldTable list \<Rightarrow> string list \<Rightarrow> string list \<Rightarrow> MldTable list \<times> string list" where
  "mld_tables_from tables errors [] = (tables, errors)"
| "mld_tables_from tables errors (l # ls) =
     (case match_table (trim l) of
        Some name \<Rightarrow>
          (let r = mld_columns name [] errors ls
           in mld_tables_from (tables @ [\<lparr>tbl_name = name, tbl_columns = fst r\<rparr>])
                (fst (snd r)) (snd (snd r)))
      | None \<Rightarrow> mld_tables_from tables errors ls)"
  by pat_completeness auto

termination
  by (relation "measure (\<lambda>(tables, errors, ls). length ls)")
     (auto simp: mld_columns_less split_beta)

declare mld_tables_from.simps [simp del]

definition parseMld :: "string \<Rightarrow> MldParseResult" where
  "parseMld source =
     (let r = mld_tables_from [] [] (split_on CHR 0x0A source)
      in \<lparr>mres_model = \<lparr>mld_tables = fst r\<rparr>, mres_errors = snd r\<rparr>)"


subsection \<open>generateMpdText (main.ts)\<close>

definition constraint_flags :: "MpdConstraint \<Rightarrow> string list" where
  "constraint_flags c =
     (if con_type c = NOT_NULL then [''[NOT NULL]''] else [])
     @ (if con_type c = UNIQUE then [''[UNIQUE]''] else [])
     @ (case con_expression c of
          None \<Rightarrow> []
        | Some e \<Rightarrow> if con_type c = CHECK \<and> e \<noteq> [] then [''[CHECK('' @ e @ '')]''] else [])"

definition mpd_fk_flag :: "MpdForeignKey \<Rightarrow> string" where
  "mpd_fk_flag fk =
     ''[FK -> '' @ pfk_referencedTable fk @ ''.'' @ pfk_referencedColumn fk
     @ (case pfk_onDelete fk of None \<Rightarrow> [] | Some a \<Rightarrow> '' ON DELETE '' @ action_text a)
     @ (case pfk_onUpdate fk of None \<Rightarrow> [] | Some a \<Rightarrow> '' ON UPDATE '' @ action_text a)
     @ '']''"

definition mpd_flags :: "MpdColumn \<Rightarrow> string list" where
  "mpd_flags col =
     (if pcol_isPrimaryKey col then [''[PK]''] else [])
     @ concat (map constraint_flags (pcol_constraints col))
     @ (case pcol_foreignKey col of None \<Rightarrow> [] | Some fk \<Rightarrow> [mpd_fk_flag fk])"

definition mpd_column_line :: "MpdColumn \<Rightarrow> string" where
  "mpd_column_line col =
     ''    '' @ pcol_name col @ '' '' @ pcol_sqlType col
     @ (if length (mpd_flags col) > 0 then '' '' @ join '' '' (mpd_flags col) else [])"

definition mpd_table_lines :: "MpdTable \<Rightarrow> string list" where
  "mpd_table_lines t =
     [''TABLE '' @ ptbl_name t @ '' {''] @ map mpd_column_line (ptbl_columns t) @ [''}'', []]"

definition generateMpdText :: "MpdModel \<Rightarrow> string" where
  "generateMpdText model = trim (join [CHR 0x0A] (concat (map mpd_table_lines (mpd_tables model))))"

subsection \<open>parseMpd (parser/mpdParser.ts)\<close>

text \<open>
  The type \<open>(\w+(?:\(\d+(?:,\d+)?\))?)\<close>: a word, and the parenthesised length or precision
  when it follows in that form.
\<close>

definition take_digits :: "string \<Rightarrow> (string \<times> string) option" where
  "take_digits s =
     (let w = takeWhile is_digit s
      in if w = [] then None else Some (w, dropWhile is_digit s))"

definition type_suffix :: "string \<Rightarrow> (string \<times> string) option" where
  "type_suffix s =
     Option.bind (strip_ci ''('' s) (\<lambda>r.
     Option.bind (take_digits r) (\<lambda>(n, r1).
       case Option.bind (strip_ci '','' r1) (\<lambda>r2.
              Option.bind (take_digits r2) (\<lambda>(k, r3).
              Option.bind (strip_ci '')'' r3) (\<lambda>r4. Some (''('' @ n @ '','' @ k @ '')'', r4)))) of
         Some res \<Rightarrow> Some res
       | None \<Rightarrow> Option.bind (strip_ci '')'' r1) (\<lambda>r2. Some (''('' @ n @ '')'', r2))))"

definition take_type :: "string \<Rightarrow> (string \<times> string) option" where
  "take_type s =
     Option.bind (take_word s) (\<lambda>(w, r).
       case type_suffix r of
         Some (p, r1) \<Rightarrow> Some (w @ p, r1)
       | None \<Rightarrow> Some (w, r))"

text \<open>\<open>/\[NOT\s*NULL\]/i\<close> and \<open>/\[CHECK\(([^)]+)\)\]/i\<close> at the start of a text.\<close>

definition not_null_at :: "string \<Rightarrow> unit option" where
  "not_null_at s =
     Option.bind (strip_ci ''[NOT'' s) (\<lambda>r.
     Option.bind (strip_ci ''NULL]'' (dropWhile is_space r)) (\<lambda>r. Some ()))"

definition check_at :: "string \<Rightarrow> string option" where
  "check_at s =
     Option.bind (strip_ci ''[CHECK('' s) (\<lambda>r.
       let e = takeWhile (\<lambda>c. c \<noteq> CHR '')'') r
       in if e = [] then None
          else Option.bind (strip_ci '')]'' (dropWhile (\<lambda>c. c \<noteq> CHR '')'') r)) (\<lambda>r. Some e))"

text \<open>
  The foreign key
  \<open>/\[FK\s*->\s*(\w+)\.(\w+)(?:\s+ON\s+DELETE\s+(\w+(?:\s+\w+)?))?(?:\s+ON\s+UPDATE\s+(\w+(?:\s+\w+)?))?\]/i\<close>.
  The two clauses are optional and an action has one or two words, so the pattern can be
  matched in several ways; the lists below give them in the order in which the matcher
  tries them (a clause before its absence, two words before one), and the first one that
  reaches the closing bracket is the match.
\<close>

definition action_alternatives :: "string \<Rightarrow> (string \<times> string) list" where
  "action_alternatives s =
     (case take_word s of
        None \<Rightarrow> []
      | Some (w1, r) \<Rightarrow>
          (case Option.bind (spaces1 r) take_word of
             None \<Rightarrow> []
           | Some (w2, r1) \<Rightarrow> [(w1 @ takeWhile is_space r @ w2, r1)])
          @ [(w1, r)])"

definition clause_alternatives :: "string \<Rightarrow> string \<Rightarrow> (string option \<times> string) list" where
  "clause_alternatives keyword s =
     (case Option.bind (spaces1 s) (\<lambda>r.
           Option.bind (strip_ci ''ON'' r) (\<lambda>r.
           Option.bind (spaces1 r) (\<lambda>r.
           Option.bind (strip_ci keyword r) spaces1))) of
        None \<Rightarrow> []
      | Some r \<Rightarrow> map (\<lambda>(a, r1). (Some a, r1)) (action_alternatives r))
     @ [(None, s)]"

definition mpd_fk_at :: "string \<Rightarrow> (string \<times> string \<times> string option \<times> string option) option" where
  "mpd_fk_at s =
     Option.bind (strip_ci ''[FK'' s) (\<lambda>r.
     Option.bind (strip_ci ''->'' (dropWhile is_space r)) (\<lambda>r.
     Option.bind (take_word (dropWhile is_space r)) (\<lambda>(t, r).
     Option.bind (strip_ci ''.'' r) (\<lambda>r.
     Option.bind (take_word r) (\<lambda>(c, r).
       map_option (\<lambda>(d, u, r1). (t, c, d, u))
         (find (\<lambda>(d, u, r1). strip_ci '']'' r1 \<noteq> None)
            (concat (map (\<lambda>(d, r1). map (\<lambda>(u, r2). (d, u, r2)) (clause_alternatives ''UPDATE'' r1))
                       (clause_alternatives ''DELETE'' r)))))))))"

definition parseReferentialAction :: "string option \<Rightarrow> ReferentialAction option" where
  "parseReferentialAction v =
     (case v of
        None \<Rightarrow> None
      | Some s \<Rightarrow>
          if s = [] then None
          else find (\<lambda>a. action_text a = trim (toUpperCase s))
                 [CASCADE, SET_NULL, SET_DEFAULT, RESTRICT, NO_ACTION])"

definition parseMpdColumn :: "string \<Rightarrow> string \<Rightarrow> MpdColumn option \<times> string list" where
  "parseMpdColumn line tableName =
     (let cleaned = trim (strip_trailing_comma line);
          invalid = (None, [''Colonne MPD invalide dans '' @ quoted tableName @ '' : ''
                            @ quoted cleaned @ ''.''])
      in case Option.bind (take_word cleaned) (\<lambda>(name, r).
              Option.bind (spaces1 r) (\<lambda>r.
              Option.bind (take_type r) (\<lambda>(sqlType, r). Some (name, sqlType, dropWhile is_space r)))) of
           None \<Rightarrow> invalid
         | Some (name, sqlType, flagString) \<Rightarrow>
             if list_ex is_line_terminator flagString then invalid
             else
               (Some \<lparr>pcol_name = name, pcol_sqlType = sqlType,
                       pcol_isPrimaryKey = test_ci ''[PK]'' flagString,
                       pcol_foreignKey =
                         map_option (\<lambda>(t, c, d, u).
                             \<lparr>pfk_columnName = name, pfk_referencedTable = t,
                              pfk_referencedColumn = c,
                              pfk_onDelete = parseReferentialAction d,
                              pfk_onUpdate = parseReferentialAction u\<rparr>)
                           (search mpd_fk_at flagString),
                       pcol_constraints =
                         (if search not_null_at flagString \<noteq> None
                          then [\<lparr>con_type = NOT_NULL, con_expression = None\<rparr>] else [])
                         @ (if test_ci ''[UNIQUE]'' flagString
                            then [\<lparr>con_type = UNIQUE, con_expression = None\<rparr>] else [])
                         @ (case search check_at flagString of
                              None \<Rightarrow> []
                            | Some e \<Rightarrow> [\<lparr>con_type = CHECK, con_expression = Some e\<rparr>])\<rparr>,
                []))"

record MpdParseResult =
  pres_model :: MpdModel
  pres_errors :: "string list"

fun mpd_columns ::
  "string \<Rightarrow> MpdColumn list \<Rightarrow> string list \<Rightarrow> string list
    \<Rightarrow> MpdColumn list \<times> string list \<times> string list" where
  "mpd_columns tableName cols errors [] = (cols, errors, [])"
| "mpd_columns tableName cols errors (l # ls) =
     (let colLine = trim l in
      if colLine = ''}'' \<or> startsWith colLine ''}'' then (cols, errors, ls)
      else if colLine = [] then mpd_columns tableName cols errors ls
      else
        (let r = parseMpdColumn colLine tableName
         in mpd_columns tableName (case fst r of None \<Rightarrow> cols | Some col \<Rightarrow> cols @ [col])
              (errors @ snd r) ls))"

lemma mpd_columns_length:
  "length (snd (snd (mpd_columns tableName cols errors ls))) \<le> length ls"
  by (induction ls arbitrary: cols errors) (auto simp: Let_def le_SucI)

lemma mpd_columns_less:
  "length (snd (snd (mpd_columns tableName cols errors ls))) < Suc (length ls)"
  using mpd_columns_length [of tableName cols errors ls] by simp

function mpd_tables_from ::
  "MpdTable list \<Rightarrow> string list \<Rightarrow> string list \<Rightarrow> MpdTable list \<times> string list" where
  "mpd_tables_from tables errors [] = (tables, errors)"
| "mpd_tables_from tables errors (l # ls) =
     (case match_table (trim l) of
        Some name \<Rightarrow>
          (let r = mpd_columns name [] errors ls
           in mpd_tables_from (tables @ [\<lparr>ptbl_name = name, ptbl_columns = fst r\<rparr>])
                (fst (snd r)) (snd (snd r)))
      | None \<Rightarrow> mpd_tables_from tables errors ls)"
  by pat_completeness auto

termination
  by (relation "measure (\<lambda>(tables, errors, ls). length ls)")
     (auto simp: mpd_columns_less split_beta)

declare mpd_tables_from.simps [simp del]

definition parseMpd :: "string \<Rightarrow> MpdParseResult" where
  "parseMpd source =
     (let r = mpd_tables_from [] [] (split_on CHR 0x0A source)
      in \<lparr>pres_model = \<lparr>mpd_tables = fst r\<rparr>, pres_errors = snd r\<rparr>)"

section \<open>A model read back from its text\<close>

subsection \<open>Facts on characters and patterns\<close>

text \<open>A name that the pattern \<open>\w+\<close> matches as a whole: not empty, made of word characters.\<close>

definition is_name :: "string \<Rightarrow> bool" where
  "is_name s = (s \<noteq> [] \<and> list_all is_word_char s)"

lemma upper_char_eq:
  "upper_char a = x \<longleftrightarrow>
     (let n = (of_char a :: nat) in if 97 \<le> n \<and> n \<le> 122 then n - 32 else n) = of_char x"
proof -
  have "char_of (of_char a - 32 :: nat) = x \<longleftrightarrow> (of_char a - 32 :: nat) = of_char x"
    if "97 \<le> (of_char a :: nat)" "(of_char a :: nat) \<le> 122"
  proof -
    have "(of_char a - 32 :: nat) < 256" using that by simp
    then have "of_char (char_of (of_char a - 32 :: nat)) = (of_char a - 32 :: nat)"
      by (simp add: take_bit_nat_eq_self)
    then show ?thesis
      by (metis of_char_eq_iff)
  qed
  then show ?thesis
    by (simp add: upper_char_def Let_def)
qed



lemma strip_ci_Nil [simp]: "strip_ci [] s = Some s"
  by (simp add: strip_ci_def toUpperCase_def)

lemma strip_ci_Cons_Nil [simp]: "strip_ci (x # p) [] = None"
  by (simp add: strip_ci_def)

lemma strip_ci_Cons:
  "strip_ci (x # p) (a # s) = (if upper_char a = x then strip_ci p s else None)"
  by (auto simp: strip_ci_def toUpperCase_def)

lemma strip_ci_word:
  "is_name n \<Longrightarrow> x \<in> {CHR ''['', CHR '']'', CHR ''.'', CHR '','', CHR ''('', CHR '')'', CHR ''-''}
   \<Longrightarrow> strip_ci (x # p) (n @ s) = None"
  by (cases n)
     (auto simp: is_name_def strip_ci_Cons upper_char_eq Let_def is_word_char_def)


lemma take_word_not_word:
  "\<not> is_word_char c \<Longrightarrow> take_word (c # s) = None"
  by (simp add: take_word_def)




lemma trim_Nil [simp]: "trim [] = []"
  by (simp add: trim_def trim_end_def)


subsection \<open>Lines\<close>






subsection \<open>Searching a text of flags\<close>

text \<open>
  All the patterns that are searched in the flags start with an opening bracket: such a
  pattern can only match where the text has one.
\<close>

definition anchored :: "(string \<Rightarrow> 'a option) \<Rightarrow> bool" where
  "anchored f = (\<forall>s. f s \<noteq> None \<longrightarrow> s \<noteq> [] \<and> hd s = CHR ''['')"




declare search.simps [simp del]

lemma search_Nil_anchored: "anchored f \<Longrightarrow> search f [] = None"
  by (auto simp: anchored_def search.simps)

lemma search_other: "anchored f \<Longrightarrow> c \<noteq> CHR ''['' \<Longrightarrow> search f (c # s) = search f s"
proof -
  assume a: "anchored f" and c: "c \<noteq> CHR ''[''"
  have "f (c # s) = None"
    using a c unfolding anchored_def by (metis list.sel(1))
  then show ?thesis by (simp add: search.simps)
qed

lemma search_skip: "anchored f \<Longrightarrow> CHR ''['' \<notin> set w \<Longrightarrow> search f (w @ s) = search f s"
  by (induction w) (auto simp: search_other)

lemma search_flag_miss:
  "anchored f \<Longrightarrow> f (CHR ''['' # body @ rest) = None \<Longrightarrow> CHR ''['' \<notin> set body \<Longrightarrow>
   search f (CHR ''['' # body @ rest) = search f rest"
  by (simp add: search_skip search.simps)

lemma search_flag_hit:
  "f (CHR ''['' # s) = Some r \<Longrightarrow> search f (CHR ''['' # s) = Some r"
  by (simp add: search.simps)


subsection \<open>A logical model read back from its text\<close>



















lemma trim_close [simp]: "trim ''}'' = ''}''"
  by (simp add: trim_def trim_end_def is_space_def)
















subsection \<open>Flags in brackets\<close>

text \<open>
  A flag starts with an opening bracket and has no other one. \<open>spaced\<close> is the text that
  \<open>generateMpdText\<close> appends to a column for its flags: a space before each of them.
\<close>

definition is_flag :: "string \<Rightarrow> bool" where
  "is_flag x = (x \<noteq> [] \<and> hd x = CHR ''['' \<and> CHR ''['' \<notin> set (tl x))"

definition spaced :: "string list \<Rightarrow> string" where
  "spaced fl = concat (map ((#) CHR '' '') fl)"

lemma spaced_simps [simp]:
  "spaced [] = []" "spaced (x # xs) = CHR '' '' # x @ spaced xs"
  "spaced (xs @ ys) = spaced xs @ spaced ys"
  by (simp_all add: spaced_def)



lemma search_flag_skip:
  assumes "anchored f" and "is_flag x" and "f (x @ rest) = None"
  shows "search f (CHR '' '' # x @ rest) = search f rest"
proof -
  obtain body where x: "x = CHR ''['' # body" and body: "CHR ''['' \<notin> set body"
    using assms(2) by (cases x) (auto simp: is_flag_def)
  have "search f (CHR '' '' # x @ rest) = search f (x @ rest)"
    by (rule search_other [OF assms(1)]) simp
  also have "\<dots> = search f rest"
    using search_flag_miss [OF assms(1) _ body, of rest] assms(3) by (simp add: x)
  finally show ?thesis .
qed

lemma search_flags_skip:
  assumes "anchored f" and "\<forall>x \<in> set fl. is_flag x \<and> (\<forall>rest. f (x @ rest) = None)"
  shows "search f (spaced fl @ rest) = search f rest"
  using assms(2)
proof (induction fl)
  case Nil
  then show ?case by simp
next
  case (Cons x fl)
  then show ?case
    using search_flag_skip [OF assms(1), of x "spaced fl @ rest"] by simp
qed

lemma search_flag_found:
  assumes "anchored f" and "f (x @ rest) = Some r"
  shows "search f (CHR '' '' # x @ rest) = Some r"
proof -
  have "search f (CHR '' '' # x @ rest) = search f (x @ rest)"
    by (rule search_other [OF assms(1)]) simp
  moreover have "x @ rest \<noteq> []"
    using assms unfolding anchored_def by (metis option.distinct(1))
  ultimately show ?thesis
    using assms(2) by (cases "x @ rest") (simp_all add: search.simps(2))
qed

lemma test_flags:
  assumes "anchored f"
    and "\<forall>x \<in> set fl. is_flag x \<and> (\<forall>rest. (f (x @ rest) \<noteq> None) = hit x)"
  shows "(search f (spaced fl) \<noteq> None) = (\<exists>x \<in> set fl. hit x)"
  using assms(2)
proof (induction fl)
  case Nil
  then show ?case by (simp add: search_Nil_anchored [OF assms(1)])
next
  case (Cons x fl)
  show ?case
  proof (cases "hit x")
    case True
    then have "f (x @ spaced fl) \<noteq> None"
      using Cons.prems by simp
    then obtain r where "f (x @ spaced fl) = Some r"
      by blast
    then show ?thesis
      using True search_flag_found [OF assms(1)] by simp
  next
    case False
    then have "f (x @ spaced fl) = None" and "is_flag x"
      using Cons.prems by auto
    then show ?thesis
      using False search_flag_skip [OF assms(1), of x "spaced fl"] Cons by simp
  qed
qed

lemma find_flags:
  assumes "anchored f"
    and "\<forall>x \<in> set fl. is_flag x \<and> (\<forall>rest. f (x @ rest) = val x)"
  shows "search f (spaced fl) = Option.bind (find (\<lambda>x. val x \<noteq> None) fl) val"
  using assms(2)
proof (induction fl)
  case Nil
  then show ?case by (simp add: search_Nil_anchored [OF assms(1)])
next
  case (Cons x fl)
  show ?case
  proof (cases "val x")
    case None
    then have "f (x @ spaced fl) = None" and "is_flag x"
      using Cons.prems by auto
    then show ?thesis
      using None search_flag_skip [OF assms(1), of x "spaced fl"] Cons by simp
  next
    case (Some r)
    then have "f (x @ spaced fl) = Some r"
      using Cons.prems by auto
    then show ?thesis
      using Some search_flag_found [OF assms(1)] by simp
  qed
qed


subsection \<open>A physical model read back from its text\<close>


















































subsection \<open>Searching the flags of a column\<close>

text \<open>
  The result of a search in the flags of a column is the first result that the pattern has
  on one of them: on \<open>[PK]\<close>, then on the flags of the constraints in their order, then on the
  flag of the foreign key.
\<close>

definition orelse :: "'a option \<Rightarrow> 'a option \<Rightarrow> 'a option" where
  "orelse a b = (case a of Some r \<Rightarrow> Some r | None \<Rightarrow> b)"

lemma orelse_simps [simp]: "orelse None b = b" "orelse (Some r) b = Some r" "orelse a None = a"
  by (simp_all add: orelse_def split: option.splits)



















subsection \<open>A column of a physical model\<close>







subsection \<open>The tables of a physical model\<close>










subsection \<open>Models that are read back unchanged\<close>



fun constraint_rank :: "ConstraintType \<Rightarrow> nat" where
  "constraint_rank NOT_NULL = 0"
| "constraint_rank UNIQUE = 1"
| "constraint_rank CHECK = 2"






lemma rank_cases:
  "constraint_rank x < constraint_rank y \<Longrightarrow>
   (x = NOT_NULL \<and> y = UNIQUE) \<or> (x = NOT_NULL \<and> y = CHECK) \<or> (x = UNIQUE \<and> y = CHECK)"
  by (cases x; cases y) simp_all










definition mld_plain :: "string \<Rightarrow> string \<Rightarrow> MldModel" where
  "mld_plain t c =
     \<lparr>mld_tables = [\<lparr>tbl_name = t,
                      tbl_columns = [\<lparr>col_name = c, col_isPrimaryKey = False, col_foreignKey = None\<rparr>]\<rparr>]\<rparr>"

definition mpd_plain :: "string \<Rightarrow> MpdConstraint list \<Rightarrow> MpdModel" where
  "mpd_plain ty cs =
     \<lparr>mpd_tables = [\<lparr>ptbl_name = ''T'',
                      ptbl_columns = [\<lparr>pcol_name = ''c'', pcol_sqlType = ty, pcol_isPrimaryKey = False,
                                       pcol_foreignKey = None, pcol_constraints = cs\<rparr>]\<rparr>]\<rparr>"




text \<open>
  Other models that are not read back: a table name of two words (the table is not
  recognised), a type of two words, a \<open>CHECK\<close> whose expression has a closing parenthesis
  (the constraint is lost) or the text of another flag (the column becomes a primary key).
\<close>

lemma text_roundtrip_hypotheses_needed:
  "parseMld (generateMldText (mld_plain ''CODE POSTAL'' ''ville''))
     = \<lparr>mres_model = \<lparr>mld_tables = []\<rparr>, mres_errors = []\<rparr>
   \<and> parseMpd (generateMpdText (mpd_plain ''DOUBLE PRECISION'' []))
     = \<lparr>pres_model = mpd_plain ''DOUBLE'' [], pres_errors = []\<rparr>
   \<and> parseMpd (generateMpdText
        (mpd_plain ''INT'' [\<lparr>con_type = CHECK, con_expression = Some ''abs(c) < 9''\<rparr>]))
     = \<lparr>pres_model = mpd_plain ''INT'' [], pres_errors = []\<rparr>
   \<and> parseMpd (generateMpdText
        (mpd_plain ''INT'' [\<lparr>con_type = CHECK, con_expression = Some ''c <> [PK]''\<rparr>]))
     = \<lparr>pres_model =
          \<lparr>mpd_tables = [\<lparr>ptbl_name = ''T'',
                ptbl_columns = [\<lparr>pcol_name = ''c'', pcol_sqlType = ''INT'', pcol_isPrimaryKey = True,
                   pcol_foreignKey = None,
                   pcol_constraints = [\<lparr>con_type = CHECK, con_expression = Some ''c <> [PK]''\<rparr>]\<rparr>]\<rparr>]\<rparr>,
        pres_errors = []\<rparr>"
  by code_simp

end
